theory Spec2Isabelle
  imports Main "HOL-Library.Word" "HOL-Library.Sublist"
begin

section \<open>Python values\<close>

text \<open>
  The server handles JSON documents as untyped Python values: tool arguments, HTTP
  request bodies, vendor responses and its own result dictionaries. A float is kept as
  its IEEE-754 binary64 bit pattern; a dictionary is the list of its items (keys are
  unique in a Python dict, lookup is \<open>map_of\<close>). Strings are byte strings: a character
  beyond ASCII appears as its UTF-8 bytes.
\<close>

type_synonym pyfloat = "64 word"

datatype pyval =
    PNone
  | PBool bool
  | PInt int
  | PFloat pyfloat
  | PStr string
  | PList "pyval list"
  | PDict "(string \<times> pyval) list"

text \<open>The float literals of the source, as binary64 bit patterns.\<close>

definition float_0_8 :: pyfloat where
  "float_0_8 = 0x3FE999999999999A"

definition float_3_5 :: pyfloat where
  "float_3_5 = 0x400C000000000000"

definition float_0_1 :: pyfloat where
  "float_0_1 = 0x3FB999999999999A"

definition float_1_0 :: pyfloat where
  "float_1_0 = 0x3FF0000000000000"

definition float_0_0 :: pyfloat where
  "float_0_0 = 0"

text \<open>
  An exception value: its class name and what \<open>str(e)\<close> returns. Only classes derived
  from \<open>Exception\<close> are modelled (every one the transport, the JSON parser and the
  subscripting of values raise); \<open>except Exception\<close> catches all of them.
\<close>

datatype pyexn = PyExn (exn_class: string) (exn_str: string)

definition squote :: "string \<Rightarrow> string" where
  "squote s = CHR 0x27 # s @ [CHR 0x27]"

fun type_name :: "pyval \<Rightarrow> string" where
  "type_name PNone = ''NoneType''"
| "type_name (PBool _) = ''bool''"
| "type_name (PInt _) = ''int''"
| "type_name (PFloat _) = ''float''"
| "type_name (PStr _) = ''str''"
| "type_name (PList _) = ''list''"
| "type_name (PDict _) = ''dict''"

text \<open>Truth value testing (\<open>not x\<close>, \<open>x or y\<close>, \<open>if x\<close>): both float zeros are false.\<close>

fun py_truthy :: "pyval \<Rightarrow> bool" where
  "py_truthy PNone = False"
| "py_truthy (PBool b) = b"
| "py_truthy (PInt n) = (n \<noteq> 0)"
| "py_truthy (PFloat w) = (w \<noteq> 0 \<and> w \<noteq> 0x8000000000000000)"
| "py_truthy (PStr s) = (s \<noteq> [])"
| "py_truthy (PList xs) = (xs \<noteq> [])"
| "py_truthy (PDict d) = (d \<noteq> [])"

text \<open>\<open>x or y\<close>\<close>

definition py_or :: "pyval \<Rightarrow> pyval \<Rightarrow> pyval" where
  "py_or x y = (if py_truthy x then x else y)"

subsection \<open>Decimal rendering of integers\<close>

definition digit_char :: "nat \<Rightarrow> char" where
  "digit_char d = ''0123456789'' ! d"

function str_nat :: "nat \<Rightarrow> string" where
  "str_nat n = (if n < 10 then [digit_char n] else str_nat (n div 10) @ [digit_char (n mod 10)])"
  by pat_completeness auto
termination
  by (relation "measure (\<lambda>n. n)") auto

declare str_nat.simps [simp del]

definition str_int :: "int \<Rightarrow> string" where
  "str_int i = (if i < 0 then CHR ''-'' # str_nat (nat (- i)) else str_nat (nat i))"

subsection \<open>Subscripting and \<open>dict.get\<close>\<close>

text \<open>
  \<open>v[k]\<close> for a string key. The subscripts of this program are the literals
  \<open>images\<close>, \<open>image\<close>, \<open>url\<close>, \<open>success\<close>, \<open>model\<close>, \<open>prompt\<close> and \<open>error\<close>, for which
  the \<open>repr\<close> shown by a KeyError is the key between single quotes. Messages are
  worded as CPython 3.11 words them.
\<close>

fun getitem_key :: "pyval \<Rightarrow> string \<Rightarrow> pyexn + pyval" where
  "getitem_key (PDict d) k =
     (case map_of d k of
        None \<Rightarrow> Inl (PyExn ''KeyError'' (squote k))
      | Some v \<Rightarrow> Inr v)"
| "getitem_key (PList xs) k =
     Inl (PyExn ''TypeError'' ''list indices must be integers or slices, not str'')"
| "getitem_key (PStr s) k =
     Inl (PyExn ''TypeError'' (''string indices must be integers, not '' @ squote ''str''))"
| "getitem_key v k =
     Inl (PyExn ''TypeError'' (squote (type_name v) @ '' object is not subscriptable''))"

text \<open>
  \<open>v[i]\<close> for an integer index: a position of a sequence of length \<open>len\<close> is
  \<open>0 \<le> i < len\<close>, or \<open>-len \<le> i < 0\<close> counted from the end. The keys of a JSON
  object are strings, so an integer key is never found in one.
\<close>

definition norm_index :: "nat \<Rightarrow> int \<Rightarrow> nat option" where
  "norm_index len i =
     (if 0 \<le> i \<and> i < int len then Some (nat i)
      else if i < 0 \<and> - int len \<le> i then Some (nat (int len + i))
      else None)"

fun getitem_index :: "pyval \<Rightarrow> int \<Rightarrow> pyexn + pyval" where
  "getitem_index (PList xs) i =
     (case norm_index (length xs) i of
        Some j \<Rightarrow> Inr (xs ! j)
      | None \<Rightarrow> Inl (PyExn ''IndexError'' ''list index out of range''))"
| "getitem_index (PStr s) i =
     (case norm_index (length s) i of
        Some j \<Rightarrow> Inr (PStr [s ! j])
      | None \<Rightarrow> Inl (PyExn ''IndexError'' ''string index out of range''))"
| "getitem_index (PDict d) i = Inl (PyExn ''KeyError'' (str_int i))"
| "getitem_index v i =
     Inl (PyExn ''TypeError'' (squote (type_name v) @ '' object is not subscriptable''))"

text \<open>
  \<open>d.get(k, default)\<close> on the items of a dictionary (the argument mapping of a tool
  call is one), and \<open>v.get(k, default)\<close> on any value: a method of dictionaries only.
\<close>

definition dict_get :: "(string \<times> pyval) list \<Rightarrow> string \<Rightarrow> pyval \<Rightarrow> pyval" where
  "dict_get d k dflt = (case map_of d k of None \<Rightarrow> dflt | Some v \<Rightarrow> v)"

fun py_get :: "pyval \<Rightarrow> string \<Rightarrow> pyval \<Rightarrow> pyexn + pyval" where
  "py_get (PDict d) k dflt = Inr (dict_get d k dflt)"
| "py_get v k dflt =
     Inl (PyExn ''AttributeError''
            (squote (type_name v) @ '' object has no attribute '' @ squote ''get''))"

subsection \<open>The conversions of the runtime\<close>

text \<open>
  Parsing and printing of floats and the \<open>repr\<close> of containers belong to the Python
  runtime, not to this program; they are parameters of the model. What the builtins do
  on the other values is written out.
\<close>

record runtime =
  float_of_int :: "int \<Rightarrow> pyexn + pyfloat"
  float_of_str :: "string \<Rightarrow> pyexn + pyfloat"
  int_of_float :: "pyfloat \<Rightarrow> pyexn + int"
  int_of_str :: "string \<Rightarrow> pyexn + int"
  repr_of :: "pyval \<Rightarrow> string"

text \<open>\<open>str(v)\<close>, which is also what an f-string field \<open>{v}\<close> inserts.\<close>

fun py_str :: "runtime \<Rightarrow> pyval \<Rightarrow> string" where
  "py_str rt PNone = ''None''"
| "py_str rt (PBool b) = (if b then ''True'' else ''False'')"
| "py_str rt (PInt n) = str_int n"
| "py_str rt (PStr s) = s"
| "py_str rt v = repr_of rt v"

text \<open>\<open>float(v)\<close>\<close>

fun py_float :: "runtime \<Rightarrow> pyval \<Rightarrow> pyexn + pyfloat" where
  "py_float rt (PFloat w) = Inr w"
| "py_float rt (PBool b) = Inr (if b then float_1_0 else float_0_0)"
| "py_float rt (PInt n) = float_of_int rt n"
| "py_float rt (PStr s) = float_of_str rt s"
| "py_float rt v =
     Inl (PyExn ''TypeError''
            (''float() argument must be a string or a real number, not '' @ squote (type_name v)))"

text \<open>\<open>int(v)\<close>\<close>

fun py_int :: "runtime \<Rightarrow> pyval \<Rightarrow> pyexn + int" where
  "py_int rt (PInt n) = Inr n"
| "py_int rt (PBool b) = Inr (if b then 1 else 0)"
| "py_int rt (PFloat w) = int_of_float rt w"
| "py_int rt (PStr s) = int_of_str rt s"
| "py_int rt v =
     Inl (PyExn ''TypeError''
            (''int() argument must be a string, a bytes-like object or a real number, not ''
               @ squote (type_name v)))"

section \<open>Effects: outbound calls and exceptions\<close>

text \<open>
  One outbound POST: the URL, the JSON body and the headers handed to the HTTP client.
\<close>

record request =
  req_url :: string
  req_json :: "(string \<times> pyval) list"
  req_headers :: "(string \<times> string) list"

text \<open>
  What the program reads of a response: the status code, the body text, and what
  \<open>response.json()\<close> gives for that body (the parsed value, or the parser's exception).
\<close>

record response =
  status_code :: int
  resp_text :: string
  resp_json :: "pyexn + pyval"

text \<open>
  The vendor together with the transport: a request is answered by a response, or the
  transport raises.
\<close>

type_synonym vendor = "request \<Rightarrow> pyexn + response"

text \<open>
  A computation runs on the list of outbound calls made so far and either returns a
  value or raises.
\<close>

type_synonym 'a io = "request list \<Rightarrow> (pyexn + 'a) \<times> request list"

definition io_return :: "'a \<Rightarrow> 'a io" where
  "io_return x = (\<lambda>calls. (Inr x, calls))"

definition io_raise :: "pyexn \<Rightarrow> 'a io" where
  "io_raise e = (\<lambda>calls. (Inl e, calls))"

definition io_lift :: "pyexn + 'a \<Rightarrow> 'a io" where
  "io_lift r = (\<lambda>calls. (r, calls))"

definition io_bind :: "'a io \<Rightarrow> ('a \<Rightarrow> 'b io) \<Rightarrow> 'b io" where
  "io_bind m f = (\<lambda>calls.
     case m calls of
       (Inl e, calls') \<Rightarrow> (Inl e, calls')
     | (Inr x, calls') \<Rightarrow> f x calls')"

text \<open>\<open>try: m except Exception as e: h e\<close>\<close>

definition io_try :: "'a io \<Rightarrow> (pyexn \<Rightarrow> 'a io) \<Rightarrow> 'a io" where
  "io_try m h = (\<lambda>calls.
     case m calls of
       (Inl e, calls') \<Rightarrow> h e calls'
     | (Inr x, calls') \<Rightarrow> (Inr x, calls'))"

text \<open>\<open>await client.post(url, json=payload, headers=headers)\<close>\<close>

definition post :: "vendor \<Rightarrow> request \<Rightarrow> response io" where
  "post v req = (\<lambda>calls. (v req, calls @ [req]))"

section \<open>The remote operation client\<close>

text \<open>
  \<open>FalAIImageEditor.__init__\<close>: the API key is read from the environment variable
  \<open>FAL_KEY\<close> (absent, or empty, is refused); the base URL is fixed.
\<close>

record FalAIImageEditor =
  api_key :: string
  base_url :: string

definition FalAIImageEditor_init :: "string option \<Rightarrow> pyexn + FalAIImageEditor" where
  "FalAIImageEditor_init fal_key =
     (case fal_key of
        None \<Rightarrow> Inl (PyExn ''ValueError'' ''FAL_KEY environment variable is required'')
      | Some k \<Rightarrow>
          if k = [] then Inl (PyExn ''ValueError'' ''FAL_KEY environment variable is required'')
          else Inr \<lparr>api_key = k, base_url = ''https://queue.fal.run''\<rparr>)"

text \<open>
  The two subscript expressions that read the image URL out of a parsed response:
  \<open>result["images"][0]["url"]\<close> and \<open>result["image"]["url"]\<close>, evaluated left to
  right; the first subscript that raises ends the evaluation.
\<close>

definition images_0_url :: "pyval \<Rightarrow> pyexn + pyval" where
  "images_0_url result =
     (case getitem_key result ''images'' of
        Inl e \<Rightarrow> Inl e
      | Inr images \<Rightarrow>
          (case getitem_index images 0 of
             Inl e \<Rightarrow> Inl e
           | Inr img \<Rightarrow> getitem_key img ''url''))"

definition image_url_of :: "pyval \<Rightarrow> pyexn + pyval" where
  "image_url_of result =
     (case getitem_key result ''image'' of
        Inl e \<Rightarrow> Inl e
      | Inr img \<Rightarrow> getitem_key img ''url'')"

text \<open>
  The arguments of the one \<open>client.post\<close> of each method: the URL under the base URL,
  the payload and the headers, as the method builds them.
\<close>

definition flux_request :: "FalAIImageEditor \<Rightarrow> pyval \<Rightarrow> pyval \<Rightarrow> pyval \<Rightarrow> request" where
  "flux_request self image_url prompt strength =
     (let headers = [(''Authorization'', ''Key '' @ api_key self),
                    (''Content-Type'', ''application/json'')];
          payload = [(''image_url'', image_url),
                    (''prompt'', prompt),
                    (''strength'', strength),
                    (''num_inference_steps'', PInt 28),
                    (''guidance_scale'', PFloat float_3_5)]
      in \<lparr>req_url = base_url self @ ''/fal-ai/flux/dev/image-to-image'', req_json = payload, req_headers = headers\<rparr>)"

definition qwen_request :: "FalAIImageEditor \<Rightarrow> pyval \<Rightarrow> pyval \<Rightarrow> request" where
  "qwen_request self image_url prompt =
     (let headers = [(''Authorization'', ''Key '' @ api_key self),
                    (''Content-Type'', ''application/json'')];
          payload = [(''image_url'', image_url),
                    (''prompt'', prompt)]
      in \<lparr>req_url = base_url self @ ''/fal-ai/qwen-image-edit'', req_json = payload, req_headers = headers\<rparr>)"

definition rembg_request :: "FalAIImageEditor \<Rightarrow> pyval \<Rightarrow> request" where
  "rembg_request self image_url =
     (let headers = [(''Authorization'', ''Key '' @ api_key self),
                    (''Content-Type'', ''application/json'')];
          payload = [(''image_url'', image_url)]
      in \<lparr>req_url = base_url self @ ''/fal-ai/imageutils/rembg'', req_json = payload, req_headers = headers\<rparr>)"

definition esrgan_request :: "FalAIImageEditor \<Rightarrow> pyval \<Rightarrow> pyval \<Rightarrow> request" where
  "esrgan_request self image_url scale =
     (let headers = [(''Authorization'', ''Key '' @ api_key self),
                    (''Content-Type'', ''application/json'')];
          payload = [(''image_url'', image_url),
                    (''scale'', scale)]
      in \<lparr>req_url = base_url self @ ''/fal-ai/esrgan'', req_json = payload, req_headers = headers\<rparr>)"

text \<open>
  The four client methods. Each is one \<open>try\<close> block around building the request,
  the POST and the reading of the response, with \<open>except Exception as e\<close> returning the
  failure dictionary (the log line written there is not modelled). The result is the
  Python dictionary the method returns. The defaults of the signatures
  (\<open>strength = 0.8\<close>, \<open>scale = 2\<close>) are never used: every caller passes all arguments.
\<close>

definition edit_image_flux ::
  "FalAIImageEditor \<Rightarrow> vendor \<Rightarrow> pyval \<Rightarrow> pyval \<Rightarrow> pyval \<Rightarrow> pyval io" where
  "edit_image_flux self v image_url prompt strength =
     io_try
       (io_bind
             (post v (flux_request self image_url prompt strength))
             (\<lambda>response.
                if status_code response = 200 then
                  io_bind (io_lift (resp_json response)) (\<lambda>result.
                  io_bind (io_lift (images_0_url result)) (\<lambda>url.
                  io_return (PDict [(''success'', PBool True),
                                    (''image_url'', url),
                                    (''model'', PStr ''FLUX Dev''),
                                    (''prompt'', prompt)])))
                else
                  io_return (PDict [(''success'', PBool False),
                                    (''error'', PStr (''API request failed: ''
                                       @ str_int (status_code response) @ '' ''
                                       @ resp_text response))])))
       (\<lambda>e. io_return (PDict [(''success'', PBool False), (''error'', PStr (exn_str e))]))"

definition edit_image_qwen ::
  "FalAIImageEditor \<Rightarrow> vendor \<Rightarrow> pyval \<Rightarrow> pyval \<Rightarrow> pyval io" where
  "edit_image_qwen self v image_url prompt =
     io_try
       (io_bind
             (post v (qwen_request self image_url prompt))
             (\<lambda>response.
                if status_code response = 200 then
                  io_bind (io_lift (resp_json response)) (\<lambda>result.
                  io_bind (io_lift (image_url_of result)) (\<lambda>url.
                  io_return (PDict [(''success'', PBool True),
                                    (''image_url'', url),
                                    (''model'', PStr ''Qwen Image Edit''),
                                    (''prompt'', prompt)])))
                else
                  io_return (PDict [(''success'', PBool False),
                                    (''error'', PStr (''API request failed: ''
                                       @ str_int (status_code response) @ '' ''
                                       @ resp_text response))])))
       (\<lambda>e. io_return (PDict [(''success'', PBool False), (''error'', PStr (exn_str e))]))"

definition remove_background ::
  "FalAIImageEditor \<Rightarrow> vendor \<Rightarrow> pyval \<Rightarrow> pyval io" where
  "remove_background self v image_url =
     io_try
       (io_bind
             (post v (rembg_request self image_url))
             (\<lambda>response.
                if status_code response = 200 then
                  io_bind (io_lift (resp_json response)) (\<lambda>result.
                  io_bind (io_lift (image_url_of result)) (\<lambda>url.
                  io_return (PDict [(''success'', PBool True),
                                    (''image_url'', url),
                                    (''model'', PStr ''Background Removal''),
                                    (''prompt'', PStr ''Remove background'')])))
                else
                  io_return (PDict [(''success'', PBool False),
                                    (''error'', PStr (''API request failed: ''
                                       @ str_int (status_code response) @ '' ''
                                       @ resp_text response))])))
       (\<lambda>e. io_return (PDict [(''success'', PBool False), (''error'', PStr (exn_str e))]))"

definition upscale_image ::
  "runtime \<Rightarrow> FalAIImageEditor \<Rightarrow> vendor \<Rightarrow> pyval \<Rightarrow> pyval \<Rightarrow> pyval io" where
  "upscale_image rt self v image_url scale =
     io_try
       (io_bind
             (post v (esrgan_request self image_url scale))
             (\<lambda>response.
                if status_code response = 200 then
                  io_bind (io_lift (resp_json response)) (\<lambda>result.
                  io_bind (io_lift (image_url_of result)) (\<lambda>url.
                  io_return (PDict [(''success'', PBool True),
                                    (''image_url'', url),
                                    (''model'', PStr ''ESRGAN Upscaler''),
                                    (''prompt'', PStr (''Upscale '' @ py_str rt scale @ ''x''))])))
                else
                  io_return (PDict [(''success'', PBool False),
                                    (''error'', PStr (''API request failed: ''
                                       @ str_int (status_code response) @ '' ''
                                       @ resp_text response))])))
       (\<lambda>e. io_return (PDict [(''success'', PBool False), (''error'', PStr (exn_str e))]))"

text \<open>
  The front-ends reach the client through the module-level object \<open>image_editor\<close> and
  call its methods by name; an object is the record of its methods.
\<close>

record editor_object =
  call_edit_image_flux :: "pyval \<Rightarrow> pyval \<Rightarrow> pyval \<Rightarrow> pyval io"
  call_edit_image_qwen :: "pyval \<Rightarrow> pyval \<Rightarrow> pyval io"
  call_remove_background :: "pyval \<Rightarrow> pyval io"
  call_upscale_image :: "pyval \<Rightarrow> pyval \<Rightarrow> pyval io"

definition image_editor :: "runtime \<Rightarrow> FalAIImageEditor \<Rightarrow> vendor \<Rightarrow> editor_object" where
  "image_editor rt self v =
     \<lparr>call_edit_image_flux = edit_image_flux self v,
      call_edit_image_qwen = edit_image_qwen self v,
      call_remove_background = remove_background self v,
      call_upscale_image = upscale_image rt self v\<rparr>"

section \<open>The tool registry\<close>

text \<open>
  \<open>TOOLS\<close>: the four tool declarations, each with its JSON schema as written in the
  source.
\<close>

record Tool =
  tool_name :: string
  description :: string
  inputSchema :: pyval

definition TOOLS :: "Tool list" where
  "TOOLS =
     [\<lparr>tool_name = ''edit_image_flux'',
       description = ''Edit an image using FLUX AI model based on a text prompt. Good for general image editing, style changes, object addition/modification.'',
       inputSchema = PDict
         [(''type'', PStr ''object''),
          (''properties'', PDict
             [(''image_url'', PDict
                 [(''type'', PStr ''string''),
                  (''description'', PStr ''URL of the image to edit (must be publicly accessible)'')]),
              (''prompt'', PDict
                 [(''type'', PStr ''string''),
                  (''description'', PStr (''Description of how to edit the image (e.g., ''
                      @ squote ''add sunglasses to the person'' @ '', ''
                      @ squote ''change background to beach'' @ '')''))]),
              (''strength'', PDict
                 [(''type'', PStr ''number''),
                  (''description'', PStr ''How much to change the image (0.1-1.0, default 0.8). Lower values preserve more of original.''),
                  (''minimum'', PFloat float_0_1),
                  (''maximum'', PFloat float_1_0),
                  (''default'', PFloat float_0_8)])]),
          (''required'', PList [PStr ''image_url'', PStr ''prompt''])]\<rparr>,
      \<lparr>tool_name = ''edit_image_qwen'',
       description = ''Edit an image using Qwen AI model. Excellent for text editing, precise modifications, and detailed edits.'',
       inputSchema = PDict
         [(''type'', PStr ''object''),
          (''properties'', PDict
             [(''image_url'', PDict
                 [(''type'', PStr ''string''),
                  (''description'', PStr ''URL of the image to edit (must be publicly accessible)'')]),
              (''prompt'', PDict
                 [(''type'', PStr ''string''),
                  (''description'', PStr ''Description of how to edit the image'')])]),
          (''required'', PList [PStr ''image_url'', PStr ''prompt''])]\<rparr>,
      \<lparr>tool_name = ''remove_background'',
       description = ''Remove the background from an image, making it transparent.'',
       inputSchema = PDict
         [(''type'', PStr ''object''),
          (''properties'', PDict
             [(''image_url'', PDict
                 [(''type'', PStr ''string''),
                  (''description'', PStr ''URL of the image to process (must be publicly accessible)'')])]),
          (''required'', PList [PStr ''image_url''])]\<rparr>,
      \<lparr>tool_name = ''upscale_image'',
       description = ''Upscale an image to higher resolution using AI.'',
       inputSchema = PDict
         [(''type'', PStr ''object''),
          (''properties'', PDict
             [(''image_url'', PDict
                 [(''type'', PStr ''string''),
                  (''description'', PStr ''URL of the image to upscale (must be publicly accessible)'')]),
              (''scale'', PDict
                 [(''type'', PStr ''integer''),
                  (''description'', PStr ''Scale factor (2, 4, or 8). Default is 2.''),
                  (''enum'', PList [PInt 2, PInt 4, PInt 8]),
                  (''default'', PInt 2)])]),
          (''required'', PList [PStr ''image_url''])]\<rparr>]"

definition handle_list_tools :: "Tool list" where
  "handle_list_tools = TOOLS"

text \<open>The argument names a declaration lists under \<open>required\<close>.\<close>

fun str_items :: "pyval list \<Rightarrow> string list" where
  "str_items [] = []"
| "str_items (PStr s # vs) = s # str_items vs"
| "str_items (v # vs) = str_items vs"

definition required_args :: "Tool \<Rightarrow> string list" where
  "required_args t =
     (case getitem_key (inputSchema t) ''required'' of
        Inr (PList vs) \<Rightarrow> str_items vs
      | _ \<Rightarrow> [])"

section \<open>The tool-protocol front-end\<close>

datatype TextContent = TextContent (content_type: string) (content_text: string)

datatype CallToolResult = CallToolResult (content: "TextContent list") (isError: bool)

text \<open>The two markers of the response text, U+2705 and U+274C, in UTF-8.\<close>

definition check_mark :: string where
  "check_mark = [CHR 0xE2, CHR 0x9C, CHR 0x85]"

definition cross_mark :: string where
  "cross_mark = [CHR 0xE2, CHR 0x9D, CHR 0x8C]"

text \<open>
  The part of \<open>handle_call_tool\<close> after the dispatch (\<open># Format response\<close>): the text
  is built from the result dictionary, whose fields are read by subscripting.
\<close>

definition format_response :: "runtime \<Rightarrow> pyval \<Rightarrow> CallToolResult io" where
  "format_response rt result =
     io_bind (io_lift (getitem_key result ''success'')) (\<lambda>success.
     io_bind
       (if py_truthy success then
          io_bind (io_lift (getitem_key result ''model'')) (\<lambda>model.
          io_bind (io_lift (getitem_key result ''prompt'')) (\<lambda>prompt.
          io_bind (io_lift (getitem_key result ''image_url'')) (\<lambda>image_url.
          io_return (check_mark @ '' Image edited successfully!'' @ [CHR 0x0A, CHR 0x0A]
                     @ ''**Model:** '' @ py_str rt model @ [CHR 0x0A]
                     @ ''**Prompt:** '' @ py_str rt prompt @ [CHR 0x0A]
                     @ ''**Result:** '' @ py_str rt image_url))))
        else
          io_bind (io_lift (getitem_key result ''error'')) (\<lambda>error.
          io_return (cross_mark @ '' Error editing image: '' @ py_str rt error)))
       (\<lambda>response_text.
     io_bind (io_lift (getitem_key result ''success'')) (\<lambda>success'.
     io_return (CallToolResult [TextContent ''text'' response_text] (\<not> py_truthy success')))))"

text \<open>
  \<open>handle_call_tool\<close>. The dispatch either returns a result at once (\<open>Inl\<close>: a
  \<open>return\<close> inside a branch) or leaves the client's result dictionary for the
  formatting (\<open>Inr\<close>). The whole body is inside \<open>try ... except Exception as e\<close>.
\<close>

definition handle_call_tool ::
  "runtime \<Rightarrow> editor_object \<Rightarrow> string \<Rightarrow> (string \<times> pyval) list \<Rightarrow> CallToolResult io" where
  "handle_call_tool rt ed name arguments =
     io_try
       (io_bind
          (if name = ''edit_image_flux'' then
             (let image_url = dict_get arguments ''image_url'' PNone;
                  prompt = dict_get arguments ''prompt'' PNone;
                  strength = dict_get arguments ''strength'' (PFloat float_0_8)
              in if \<not> py_truthy image_url \<or> \<not> py_truthy prompt then
                   io_return (Inl (CallToolResult
                     [TextContent ''text'' ''Error: image_url and prompt are required''] True))
                 else
                   io_bind (call_edit_image_flux ed image_url prompt strength)
                     (\<lambda>result. io_return (Inr result)))
           else if name = ''edit_image_qwen'' then
             (let image_url = dict_get arguments ''image_url'' PNone;
                  prompt = dict_get arguments ''prompt'' PNone
              in if \<not> py_truthy image_url \<or> \<not> py_truthy prompt then
                   io_return (Inl (CallToolResult
                     [TextContent ''text'' ''Error: image_url and prompt are required''] True))
                 else
                   io_bind (call_edit_image_qwen ed image_url prompt)
                     (\<lambda>result. io_return (Inr result)))
           else if name = ''remove_background'' then
             (let image_url = dict_get arguments ''image_url'' PNone
              in if \<not> py_truthy image_url then
                   io_return (Inl (CallToolResult
                     [TextContent ''text'' ''Error: image_url is required''] True))
                 else
                   io_bind (call_remove_background ed image_url)
                     (\<lambda>result. io_return (Inr result)))
           else if name = ''upscale_image'' then
             (let image_url = dict_get arguments ''image_url'' PNone;
                  scale = dict_get arguments ''scale'' (PInt 2)
              in if \<not> py_truthy image_url then
                   io_return (Inl (CallToolResult
                     [TextContent ''text'' ''Error: image_url is required''] True))
                 else
                   io_bind (call_upscale_image ed image_url scale)
                     (\<lambda>result. io_return (Inr result)))
           else
             io_return (Inl (CallToolResult
               [TextContent ''text'' (''Error: Unknown tool '' @ squote name)] True)))
          (\<lambda>step. case step of
             Inl returned \<Rightarrow> io_return returned
           | Inr result \<Rightarrow> format_response rt result))
       (\<lambda>e. io_return (CallToolResult
                [TextContent ''text'' (''Internal error: '' @ exn_str e)] True))"

section \<open>The HTTP front-end\<close>

text \<open>
  A view returns \<open>jsonify(body), status\<close>. Its input is what
  \<open>request.get_json(force=True, silent=True)\<close> returns: the parsed body, or \<open>None\<close>
  when the body is absent or malformed. A view has no \<open>try\<close> block: what is raised
  inside it leaves it.
\<close>

datatype flask_response = JsonResponse (body: pyval) (status: int)

definition health :: "flask_response io" where
  "health =
     io_return (JsonResponse (PDict [(''ok'', PBool True),
                                     (''service'', PStr ''fal-ai-mcp-http'')]) 200)"

definition edit_flux :: "runtime \<Rightarrow> editor_object \<Rightarrow> pyval \<Rightarrow> flask_response io" where
  "edit_flux rt editor get_json =
     (let data = py_or get_json (PDict []) in
      io_bind (io_lift (py_get data ''image_url'' PNone)) (\<lambda>image_url.
      io_bind (io_lift (py_get data ''prompt'' PNone)) (\<lambda>prompt.
      io_bind (io_lift (py_get data ''strength'' (PFloat float_0_8))) (\<lambda>s.
      io_bind (io_lift (py_float rt s)) (\<lambda>strength.
      if \<not> py_truthy image_url \<or> \<not> py_truthy prompt then
        io_return (JsonResponse
          (PDict [(''success'', PBool False),
                  (''error'', PStr ''image_url and prompt are required'')]) 400)
      else
        io_bind (call_edit_image_flux editor image_url prompt (PFloat strength)) (\<lambda>result.
        io_bind (io_lift (py_get result ''success'' PNone)) (\<lambda>ok.
        io_return (JsonResponse result (if py_truthy ok then 200 else 500)))))))))"

definition edit_qwen :: "editor_object \<Rightarrow> pyval \<Rightarrow> flask_response io" where
  "edit_qwen editor get_json =
     (let data = py_or get_json (PDict []) in
      io_bind (io_lift (py_get data ''image_url'' PNone)) (\<lambda>image_url.
      io_bind (io_lift (py_get data ''prompt'' PNone)) (\<lambda>prompt.
      if \<not> py_truthy image_url \<or> \<not> py_truthy prompt then
        io_return (JsonResponse
          (PDict [(''success'', PBool False),
                  (''error'', PStr ''image_url and prompt are required'')]) 400)
      else
        io_bind (call_edit_image_qwen editor image_url prompt) (\<lambda>result.
        io_bind (io_lift (py_get result ''success'' PNone)) (\<lambda>ok.
        io_return (JsonResponse result (if py_truthy ok then 200 else 500)))))))"

definition remove_bg :: "editor_object \<Rightarrow> pyval \<Rightarrow> flask_response io" where
  "remove_bg editor get_json =
     (let data = py_or get_json (PDict []) in
      io_bind (io_lift (py_get data ''image_url'' PNone)) (\<lambda>image_url.
      if \<not> py_truthy image_url then
        io_return (JsonResponse
          (PDict [(''success'', PBool False),
                  (''error'', PStr ''image_url is required'')]) 400)
      else
        io_bind (call_remove_background editor image_url) (\<lambda>result.
        io_bind (io_lift (py_get result ''success'' PNone)) (\<lambda>ok.
        io_return (JsonResponse result (if py_truthy ok then 200 else 500))))))"

definition upscale :: "runtime \<Rightarrow> editor_object \<Rightarrow> pyval \<Rightarrow> flask_response io" where
  "upscale rt editor get_json =
     (let data = py_or get_json (PDict []) in
      io_bind (io_lift (py_get data ''image_url'' PNone)) (\<lambda>image_url.
      io_bind (io_lift (py_get data ''scale'' (PInt 2))) (\<lambda>s.
      io_bind (io_lift (py_int rt s)) (\<lambda>scale.
      if \<not> py_truthy image_url then
        io_return (JsonResponse
          (PDict [(''success'', PBool False),
                  (''error'', PStr ''image_url is required'')]) 400)
      else
        io_bind (call_upscale_image editor image_url (PInt scale)) (\<lambda>result.
        io_bind (io_lift (py_get result ''success'' PNone)) (\<lambda>ok.
        io_return (JsonResponse result (if py_truthy ok then 200 else 500))))))))"

text \<open>
  The routes \<open>create_http_app\<close> registers: rule, methods, view. A request is served by
  the first route whose rule is its path and whose methods list its method; \<open>None\<close>
  when the application registers no such route (the framework answers then).
\<close>

definition url_map ::
  "runtime \<Rightarrow> editor_object \<Rightarrow> (string \<times> string list \<times> (pyval \<Rightarrow> flask_response io)) list" where
  "url_map rt editor =
     [(''/health'', [''GET''], \<lambda>get_json. health),
      (''/edit/flux'', [''POST''], edit_flux rt editor),
      (''/edit/qwen'', [''POST''], edit_qwen editor),
      (''/remove-bg'', [''POST''], remove_bg editor),
      (''/upscale'', [''POST''], upscale rt editor)]"

definition dispatch_request ::
  "runtime \<Rightarrow> editor_object \<Rightarrow> string \<Rightarrow> string \<Rightarrow> pyval \<Rightarrow> (flask_response io) option" where
  "dispatch_request rt editor method path get_json =
     (case find (\<lambda>(rule, methods, view). rule = path \<and> method \<in> set methods) (url_map rt editor) of
        None \<Rightarrow> None
      | Some (rule, methods, view) \<Rightarrow> Some (view get_json))"

text \<open>
  Modelled from the spec: the outermost handler of the HTTP front-end. The views are
  run by the web framework's request dispatcher (started by \<open>app.run\<close>, without debug
  mode), which is not part of the source. The spec has "any other exception during
  dispatch, caught at the outermost handler of each front-end, reported as a generic
  internal-error message, logged, process continues", with 500 as the failure status,
  and "exactly one response per request". So: a request for a registered route is
  answered with the view's response, or, when the view raises, with a generic
  internal-error response of status 500 that carries nothing of the exception; a
  request that matches no registered route is answered by the framework's routing
  error.
\<close>

datatype wsgi_response = ViewResponse flask_response | InternalServerError | RoutingError

definition wsgi_app ::
  "runtime \<Rightarrow> editor_object \<Rightarrow> string \<Rightarrow> string \<Rightarrow> pyval \<Rightarrow> wsgi_response io" where
  "wsgi_app rt editor method path get_json =
     (case dispatch_request rt editor method path get_json of
        None \<Rightarrow> io_return RoutingError
      | Some view \<Rightarrow>
          io_try (io_bind view (\<lambda>r. io_return (ViewResponse r)))
                 (\<lambda>e. io_return InternalServerError))"

section \<open>Sample inputs\<close>

text \<open>
  Concrete values on which the model is evaluated below. The sample runtime stands
  for no particular interpreter: it refuses every conversion it is asked for and
  prints every float or container as an ellipsis. The general statements hold for
  every runtime.
\<close>

definition sample_runtime :: runtime where
  "sample_runtime =
     \<lparr>float_of_int = (\<lambda>n. Inl (PyExn ''OverflowError'' ''int too large to convert to float'')),
      float_of_str = (\<lambda>s. Inl (PyExn ''ValueError''
                                   (''could not convert string to float: '' @ squote s))),
      int_of_float = (\<lambda>w. Inl (PyExn ''OverflowError''
                                   ''cannot convert float infinity to integer'')),
      int_of_str = (\<lambda>s. Inl (PyExn ''ValueError''
                                 (''invalid literal for int() with base 10: '' @ squote s))),
      repr_of = (\<lambda>v. ''...'')\<rparr>"

definition sample_editor :: FalAIImageEditor where
  "sample_editor = \<lparr>api_key = ''test-key'', base_url = ''https://queue.fal.run''\<rparr>"

text \<open>A response body that has both documented shapes.\<close>

definition sample_body :: pyval where
  "sample_body =
     PDict [(''images'', PList [PDict [(''url'', PStr ''https://cdn.example/out.png'')]]),
            (''image'', PDict [(''url'', PStr ''https://cdn.example/out.png'')])]"

definition vendor_ok :: vendor where
  "vendor_ok = (\<lambda>req. Inr \<lparr>status_code = 200, resp_text = ''ok'', resp_json = Inr sample_body\<rparr>)"

definition vendor_404 :: vendor where
  "vendor_404 = (\<lambda>req. Inr \<lparr>status_code = 404, resp_text = ''Not Found'',
                             resp_json = Inl (PyExn ''JSONDecodeError''
                               ''Expecting value: line 1 column 1 (char 0)'')\<rparr>)"

definition vendor_down :: vendor where
  "vendor_down = (\<lambda>req. Inl (PyExn ''ConnectError'' ''All connection attempts failed''))"

text \<open>An editor object whose methods all raise, as a test double would.\<close>

definition raising_editor :: editor_object where
  "raising_editor =
     \<lparr>call_edit_image_flux = (\<lambda>image_url prompt strength. io_raise (PyExn ''RuntimeError'' ''boom'')),
      call_edit_image_qwen = (\<lambda>image_url prompt. io_raise (PyExn ''RuntimeError'' ''boom'')),
      call_remove_background = (\<lambda>image_url. io_raise (PyExn ''RuntimeError'' ''boom'')),
      call_upscale_image = (\<lambda>image_url scale. io_raise (PyExn ''RuntimeError'' ''boom''))\<rparr>"

section \<open>Properties of the client methods\<close>

lemmas io_simps = io_return_def io_raise_def io_lift_def io_bind_def io_try_def post_def

text \<open>
  Each method is followed through its branches: the documented body, a status other
  than 200, and the three places where something can be raised inside the \<open>try\<close>.
\<close>

lemma edit_image_flux_success:
  assumes "v (flux_request self image_url prompt strength) = Inr resp"
    and "status_code resp = 200"
    and "resp_json resp = Inr (PDict d)"
    and "map_of d ''images'' = Some (PList (PDict im # rest))"
    and "map_of im ''url'' = Some u"
  shows "edit_image_flux self v image_url prompt strength calls =
     (Inr (PDict [(''success'', PBool True), (''image_url'', u),
                  (''model'', PStr ''FLUX Dev''), (''prompt'', prompt)]),
      calls @ [flux_request self image_url prompt strength])"
  using assms by (simp add: edit_image_flux_def io_simps images_0_url_def norm_index_def)

lemma edit_image_flux_non200:
  assumes "v (flux_request self image_url prompt strength) = Inr resp"
    and "status_code resp \<noteq> 200"
  shows "edit_image_flux self v image_url prompt strength calls =
     (Inr (PDict [(''success'', PBool False),
                  (''error'', PStr (''API request failed: '' @ str_int (status_code resp)
                                     @ '' '' @ resp_text resp))]),
      calls @ [flux_request self image_url prompt strength])"
  using assms by (simp add: edit_image_flux_def io_simps)

lemma edit_image_flux_returns:
  "\<exists>r. edit_image_flux self v image_url prompt strength calls =
     (Inr r, calls @ [flux_request self image_url prompt strength])"
  by (auto simp: edit_image_flux_def io_simps split: sum.splits)

lemma edit_image_flux_transport_raises:
  assumes "v (flux_request self image_url prompt strength) = Inl e"
  shows "edit_image_flux self v image_url prompt strength calls =
     (Inr (PDict [(''success'', PBool False), (''error'', PStr (exn_str e))]),
      calls @ [flux_request self image_url prompt strength])"
  using assms by (simp add: edit_image_flux_def io_simps)

lemma edit_image_flux_json_raises:
  assumes "v (flux_request self image_url prompt strength) = Inr resp"
    and "status_code resp = 200"
    and "resp_json resp = Inl e"
  shows "edit_image_flux self v image_url prompt strength calls =
     (Inr (PDict [(''success'', PBool False), (''error'', PStr (exn_str e))]),
      calls @ [flux_request self image_url prompt strength])"
  using assms by (simp add: edit_image_flux_def io_simps)

lemma edit_image_flux_subscript_raises:
  assumes "v (flux_request self image_url prompt strength) = Inr resp"
    and "status_code resp = 200"
    and "resp_json resp = Inr result"
    and "images_0_url result = Inl e"
  shows "edit_image_flux self v image_url prompt strength calls =
     (Inr (PDict [(''success'', PBool False), (''error'', PStr (exn_str e))]),
      calls @ [flux_request self image_url prompt strength])"
  using assms by (simp add: edit_image_flux_def io_simps)

lemma edit_image_qwen_success:
  assumes "v (qwen_request self image_url prompt) = Inr resp"
    and "status_code resp = 200"
    and "resp_json resp = Inr (PDict d)"
    and "map_of d ''image'' = Some (PDict im)"
    and "map_of im ''url'' = Some u"
  shows "edit_image_qwen self v image_url prompt calls =
     (Inr (PDict [(''success'', PBool True), (''image_url'', u),
                  (''model'', PStr ''Qwen Image Edit''), (''prompt'', prompt)]),
      calls @ [qwen_request self image_url prompt])"
  using assms by (simp add: edit_image_qwen_def io_simps image_url_of_def)

lemma edit_image_qwen_non200:
  assumes "v (qwen_request self image_url prompt) = Inr resp"
    and "status_code resp \<noteq> 200"
  shows "edit_image_qwen self v image_url prompt calls =
     (Inr (PDict [(''success'', PBool False),
                  (''error'', PStr (''API request failed: '' @ str_int (status_code resp)
                                     @ '' '' @ resp_text resp))]),
      calls @ [qwen_request self image_url prompt])"
  using assms by (simp add: edit_image_qwen_def io_simps)

lemma edit_image_qwen_returns:
  "\<exists>r. edit_image_qwen self v image_url prompt calls =
     (Inr r, calls @ [qwen_request self image_url prompt])"
  by (auto simp: edit_image_qwen_def io_simps split: sum.splits)

lemma edit_image_qwen_transport_raises:
  assumes "v (qwen_request self image_url prompt) = Inl e"
  shows "edit_image_qwen self v image_url prompt calls =
     (Inr (PDict [(''success'', PBool False), (''error'', PStr (exn_str e))]),
      calls @ [qwen_request self image_url prompt])"
  using assms by (simp add: edit_image_qwen_def io_simps)

lemma edit_image_qwen_json_raises:
  assumes "v (qwen_request self image_url prompt) = Inr resp"
    and "status_code resp = 200"
    and "resp_json resp = Inl e"
  shows "edit_image_qwen self v image_url prompt calls =
     (Inr (PDict [(''success'', PBool False), (''error'', PStr (exn_str e))]),
      calls @ [qwen_request self image_url prompt])"
  using assms by (simp add: edit_image_qwen_def io_simps)

lemma edit_image_qwen_subscript_raises:
  assumes "v (qwen_request self image_url prompt) = Inr resp"
    and "status_code resp = 200"
    and "resp_json resp = Inr result"
    and "image_url_of result = Inl e"
  shows "edit_image_qwen self v image_url prompt calls =
     (Inr (PDict [(''success'', PBool False), (''error'', PStr (exn_str e))]),
      calls @ [qwen_request self image_url prompt])"
  using assms by (simp add: edit_image_qwen_def io_simps)

lemma remove_background_success:
  assumes "v (rembg_request self image_url) = Inr resp"
    and "status_code resp = 200"
    and "resp_json resp = Inr (PDict d)"
    and "map_of d ''image'' = Some (PDict im)"
    and "map_of im ''url'' = Some u"
  shows "remove_background self v image_url calls =
     (Inr (PDict [(''success'', PBool True), (''image_url'', u),
                  (''model'', PStr ''Background Removal''), (''prompt'', PStr ''Remove background'')]),
      calls @ [rembg_request self image_url])"
  using assms by (simp add: remove_background_def io_simps image_url_of_def)

lemma remove_background_non200:
  assumes "v (rembg_request self image_url) = Inr resp"
    and "status_code resp \<noteq> 200"
  shows "remove_background self v image_url calls =
     (Inr (PDict [(''success'', PBool False),
                  (''error'', PStr (''API request failed: '' @ str_int (status_code resp)
                                     @ '' '' @ resp_text resp))]),
      calls @ [rembg_request self image_url])"
  using assms by (simp add: remove_background_def io_simps)

lemma remove_background_returns:
  "\<exists>r. remove_background self v image_url calls =
     (Inr r, calls @ [rembg_request self image_url])"
  by (auto simp: remove_background_def io_simps split: sum.splits)

lemma remove_background_transport_raises:
  assumes "v (rembg_request self image_url) = Inl e"
  shows "remove_background self v image_url calls =
     (Inr (PDict [(''success'', PBool False), (''error'', PStr (exn_str e))]),
      calls @ [rembg_request self image_url])"
  using assms by (simp add: remove_background_def io_simps)

lemma remove_background_json_raises:
  assumes "v (rembg_request self image_url) = Inr resp"
    and "status_code resp = 200"
    and "resp_json resp = Inl e"
  shows "remove_background self v image_url calls =
     (Inr (PDict [(''success'', PBool False), (''error'', PStr (exn_str e))]),
      calls @ [rembg_request self image_url])"
  using assms by (simp add: remove_background_def io_simps)

lemma remove_background_subscript_raises:
  assumes "v (rembg_request self image_url) = Inr resp"
    and "status_code resp = 200"
    and "resp_json resp = Inr result"
    and "image_url_of result = Inl e"
  shows "remove_background self v image_url calls =
     (Inr (PDict [(''success'', PBool False), (''error'', PStr (exn_str e))]),
      calls @ [rembg_request self image_url])"
  using assms by (simp add: remove_background_def io_simps)

lemma upscale_image_success:
  assumes "v (esrgan_request self image_url scale) = Inr resp"
    and "status_code resp = 200"
    and "resp_json resp = Inr (PDict d)"
    and "map_of d ''image'' = Some (PDict im)"
    and "map_of im ''url'' = Some u"
  shows "upscale_image rt self v image_url scale calls =
     (Inr (PDict [(''success'', PBool True), (''image_url'', u),
                  (''model'', PStr ''ESRGAN Upscaler''), (''prompt'', PStr (''Upscale '' @ py_str rt scale @ ''x''))]),
      calls @ [esrgan_request self image_url scale])"
  using assms by (simp add: upscale_image_def io_simps image_url_of_def)

lemma upscale_image_non200:
  assumes "v (esrgan_request self image_url scale) = Inr resp"
    and "status_code resp \<noteq> 200"
  shows "upscale_image rt self v image_url scale calls =
     (Inr (PDict [(''success'', PBool False),
                  (''error'', PStr (''API request failed: '' @ str_int (status_code resp)
                                     @ '' '' @ resp_text resp))]),
      calls @ [esrgan_request self image_url scale])"
  using assms by (simp add: upscale_image_def io_simps)

lemma upscale_image_returns:
  "\<exists>r. upscale_image rt self v image_url scale calls =
     (Inr r, calls @ [esrgan_request self image_url scale])"
  by (auto simp: upscale_image_def io_simps split: sum.splits)

lemma upscale_image_transport_raises:
  assumes "v (esrgan_request self image_url scale) = Inl e"
  shows "upscale_image rt self v image_url scale calls =
     (Inr (PDict [(''success'', PBool False), (''error'', PStr (exn_str e))]),
      calls @ [esrgan_request self image_url scale])"
  using assms by (simp add: upscale_image_def io_simps)

lemma upscale_image_json_raises:
  assumes "v (esrgan_request self image_url scale) = Inr resp"
    and "status_code resp = 200"
    and "resp_json resp = Inl e"
  shows "upscale_image rt self v image_url scale calls =
     (Inr (PDict [(''success'', PBool False), (''error'', PStr (exn_str e))]),
      calls @ [esrgan_request self image_url scale])"
  using assms by (simp add: upscale_image_def io_simps)

lemma upscale_image_subscript_raises:
  assumes "v (esrgan_request self image_url scale) = Inr resp"
    and "status_code resp = 200"
    and "resp_json resp = Inr result"
    and "image_url_of result = Inl e"
  shows "upscale_image rt self v image_url scale calls =
     (Inr (PDict [(''success'', PBool False), (''error'', PStr (exn_str e))]),
      calls @ [esrgan_request self image_url scale])"
  using assms by (simp add: upscale_image_def io_simps)

text \<open>
  C1. For each of the four client methods: when the vendor answers the method's request
  with status 200 and a body of the documented shape (the URL under
  \<open>["images"][0]["url"]\<close> for \<open>edit_image_flux\<close>, under \<open>["image"]["url"]\<close> for the
  other three), the method returns the success dictionary whose \<open>image_url\<close> is exactly
  that URL, with the method's fixed model label and with the prompt it was given
  (\<open>Remove background\<close> and \<open>Upscale {scale}x\<close> for the two methods without a prompt;
  an integer scale is printed in decimal). Exactly one call is made.
\<close>

theorem client_success:
  "(v (flux_request self image_url prompt strength) = Inr resp \<and> status_code resp = 200 \<and>
    resp_json resp = Inr (PDict d) \<and> map_of d ''images'' = Some (PList (PDict im # rest)) \<and>
    map_of im ''url'' = Some u
    \<longrightarrow> edit_image_flux self v image_url prompt strength calls =
          (Inr (PDict [(''success'', PBool True), (''image_url'', u),
                       (''model'', PStr ''FLUX Dev''), (''prompt'', prompt)]),
           calls @ [flux_request self image_url prompt strength])) \<and>
   (v (qwen_request self image_url prompt) = Inr resp \<and> status_code resp = 200 \<and>
    resp_json resp = Inr (PDict d) \<and> map_of d ''image'' = Some (PDict im) \<and>
    map_of im ''url'' = Some u
    \<longrightarrow> edit_image_qwen self v image_url prompt calls =
          (Inr (PDict [(''success'', PBool True), (''image_url'', u),
                       (''model'', PStr ''Qwen Image Edit''), (''prompt'', prompt)]),
           calls @ [qwen_request self image_url prompt])) \<and>
   (v (rembg_request self image_url) = Inr resp \<and> status_code resp = 200 \<and>
    resp_json resp = Inr (PDict d) \<and> map_of d ''image'' = Some (PDict im) \<and>
    map_of im ''url'' = Some u
    \<longrightarrow> remove_background self v image_url calls =
          (Inr (PDict [(''success'', PBool True), (''image_url'', u),
                       (''model'', PStr ''Background Removal''),
                       (''prompt'', PStr ''Remove background'')]),
           calls @ [rembg_request self image_url])) \<and>
   (v (esrgan_request self image_url scale) = Inr resp \<and> status_code resp = 200 \<and>
    resp_json resp = Inr (PDict d) \<and> map_of d ''image'' = Some (PDict im) \<and>
    map_of im ''url'' = Some u
    \<longrightarrow> upscale_image rt self v image_url scale calls =
          (Inr (PDict [(''success'', PBool True), (''image_url'', u),
                       (''model'', PStr ''ESRGAN Upscaler''),
                       (''prompt'', PStr (''Upscale '' @ py_str rt scale @ ''x''))]),
           calls @ [esrgan_request self image_url scale])) \<and>
   py_str rt (PInt n) = str_int n"
  using edit_image_flux_success [of v self image_url prompt strength resp d im rest u calls]
    edit_image_qwen_success [of v self image_url prompt resp d im u calls]
    remove_background_success [of v self image_url resp d im u calls]
    upscale_image_success [of v self image_url scale resp d im u rt calls]
  by simp

theorem client_success_witness:
  "edit_image_flux sample_editor vendor_ok (PStr ''http://x/img.png'') (PStr ''add a hat'')
      (PFloat float_0_8) [] =
     (Inr (PDict [(''success'', PBool True), (''image_url'', PStr ''https://cdn.example/out.png''),
                  (''model'', PStr ''FLUX Dev''), (''prompt'', PStr ''add a hat'')]),
      [flux_request sample_editor (PStr ''http://x/img.png'') (PStr ''add a hat'')
         (PFloat float_0_8)]) \<and>
   edit_image_qwen sample_editor vendor_ok (PStr ''http://x/img.png'') (PStr ''add a hat'') [] =
     (Inr (PDict [(''success'', PBool True), (''image_url'', PStr ''https://cdn.example/out.png''),
                  (''model'', PStr ''Qwen Image Edit''), (''prompt'', PStr ''add a hat'')]),
      [qwen_request sample_editor (PStr ''http://x/img.png'') (PStr ''add a hat'')]) \<and>
   remove_background sample_editor vendor_ok (PStr ''http://x/img.png'') [] =
     (Inr (PDict [(''success'', PBool True), (''image_url'', PStr ''https://cdn.example/out.png''),
                  (''model'', PStr ''Background Removal''),
                  (''prompt'', PStr ''Remove background'')]),
      [rembg_request sample_editor (PStr ''http://x/img.png'')]) \<and>
   upscale_image sample_runtime sample_editor vendor_ok (PStr ''http://x/img.png'') (PInt 4) [] =
     (Inr (PDict [(''success'', PBool True), (''image_url'', PStr ''https://cdn.example/out.png''),
                  (''model'', PStr ''ESRGAN Upscaler''), (''prompt'', PStr ''Upscale 4x'')]),
      [esrgan_request sample_editor (PStr ''http://x/img.png'') (PInt 4)])"
  using client_success [of vendor_ok sample_editor "PStr ''http://x/img.png''" "PStr ''add a hat''"
      "PFloat float_0_8"
      "\<lparr>status_code = 200, resp_text = ''ok'', resp_json = Inr sample_body\<rparr>"
      "[(''images'', PList [PDict [(''url'', PStr ''https://cdn.example/out.png'')]]),
        (''image'', PDict [(''url'', PStr ''https://cdn.example/out.png'')])]"
      "[(''url'', PStr ''https://cdn.example/out.png'')]" "[]"
      "PStr ''https://cdn.example/out.png''" "[]" "PInt 4" sample_runtime 4]
  by (simp add: vendor_ok_def sample_body_def str_int_def str_nat.simps digit_char_def)

lemma api_failed_contains:
  "sublist (str_int c) (''API request failed: '' @ str_int c @ '' '' @ t) \<and>
   sublist t (''API request failed: '' @ str_int c @ '' '' @ t)"
proof
  show "sublist (str_int c) (''API request failed: '' @ str_int c @ '' '' @ t)"
    by (rule sublist_appendI)
  have "sublist t ((''API request failed: '' @ str_int c @ '' '') @ t)"
    by (rule sublist_append_leftI)
  then show "sublist t (''API request failed: '' @ str_int c @ '' '' @ t)"
    by (simp only: append_assoc)
qed

text \<open>
  C2. For each of the four client methods: when the vendor answers the method's request
  with any status other than 200, the method returns the failure dictionary whose
  error message is \<open>API request failed: \<close> followed by the status code in decimal, a
  space and the body text; the message therefore contains both the numeric status code
  and the raw body text.
\<close>

theorem client_failure_on_non_200:
  assumes "status_code resp \<noteq> 200"
    and "msg = ''API request failed: '' @ str_int (status_code resp) @ '' '' @ resp_text resp"
  shows
  "(v (flux_request self image_url prompt strength) = Inr resp
    \<longrightarrow> edit_image_flux self v image_url prompt strength calls =
          (Inr (PDict [(''success'', PBool False), (''error'', PStr msg)]),
           calls @ [flux_request self image_url prompt strength])) \<and>
   (v (qwen_request self image_url prompt) = Inr resp
    \<longrightarrow> edit_image_qwen self v image_url prompt calls =
          (Inr (PDict [(''success'', PBool False), (''error'', PStr msg)]),
           calls @ [qwen_request self image_url prompt])) \<and>
   (v (rembg_request self image_url) = Inr resp
    \<longrightarrow> remove_background self v image_url calls =
          (Inr (PDict [(''success'', PBool False), (''error'', PStr msg)]),
           calls @ [rembg_request self image_url])) \<and>
   (v (esrgan_request self image_url scale) = Inr resp
    \<longrightarrow> upscale_image rt self v image_url scale calls =
          (Inr (PDict [(''success'', PBool False), (''error'', PStr msg)]),
           calls @ [esrgan_request self image_url scale])) \<and>
   sublist (str_int (status_code resp)) msg \<and>
   sublist (resp_text resp) msg"
proof -
  have contains: "sublist (str_int (status_code resp)) msg \<and> sublist (resp_text resp) msg"
    unfolding assms(2) using api_failed_contains by blast
  show ?thesis
    using assms contains
      edit_image_flux_non200 [of v self image_url prompt strength resp calls]
      edit_image_qwen_non200 [of v self image_url prompt resp calls]
      remove_background_non200 [of v self image_url resp calls]
      upscale_image_non200 [of v self image_url scale resp rt calls]
    by simp
qed

theorem client_failure_on_non_200_witness:
  "edit_image_flux sample_editor vendor_404 (PStr ''http://x/img.png'') (PStr ''add a hat'')
      (PFloat float_0_8) [] =
     (Inr (PDict [(''success'', PBool False),
                  (''error'', PStr ''API request failed: 404 Not Found'')]),
      [flux_request sample_editor (PStr ''http://x/img.png'') (PStr ''add a hat'')
         (PFloat float_0_8)]) \<and>
   edit_image_qwen sample_editor vendor_404 (PStr ''http://x/img.png'') (PStr ''add a hat'') [] =
     (Inr (PDict [(''success'', PBool False),
                  (''error'', PStr ''API request failed: 404 Not Found'')]),
      [qwen_request sample_editor (PStr ''http://x/img.png'') (PStr ''add a hat'')]) \<and>
   remove_background sample_editor vendor_404 (PStr ''http://x/img.png'') [] =
     (Inr (PDict [(''success'', PBool False),
                  (''error'', PStr ''API request failed: 404 Not Found'')]),
      [rembg_request sample_editor (PStr ''http://x/img.png'')]) \<and>
   upscale_image sample_runtime sample_editor vendor_404 (PStr ''http://x/img.png'') (PInt 4) [] =
     (Inr (PDict [(''success'', PBool False),
                  (''error'', PStr ''API request failed: 404 Not Found'')]),
      [esrgan_request sample_editor (PStr ''http://x/img.png'') (PInt 4)]) \<and>
   sublist ''404'' ''API request failed: 404 Not Found'' \<and>
   sublist ''Not Found'' ''API request failed: 404 Not Found''"
  using client_failure_on_non_200 [where
      resp = "\<lparr>status_code = 404, resp_text = ''Not Found'',
               resp_json = Inl (PyExn ''JSONDecodeError''
                 ''Expecting value: line 1 column 1 (char 0)'')\<rparr>"
      and msg = "''API request failed: 404 Not Found''"
      and v = vendor_404 and self = sample_editor and image_url = "PStr ''http://x/img.png''"
      and prompt = "PStr ''add a hat''" and strength = "PFloat float_0_8" and calls = "[]"
      and scale = "PInt 4" and rt = sample_runtime]
  by (simp add: vendor_404_def str_int_def str_nat.simps digit_char_def)

text \<open>
  C3. For each of the four client methods, on every input, every vendor behaviour and
  every earlier state the method returns a value (it never raises) after exactly one
  call. When the transport raises \<open>e\<close>, when \<open>response.json()\<close> raises \<open>e\<close> on a 200
  response, or when reading the URL out of the parsed body raises \<open>e\<close>, the value is the
  failure dictionary whose error is \<open>str(e)\<close>.
\<close>

theorem client_never_raises:
  "(\<exists>r. edit_image_flux self v image_url prompt strength calls =
          (Inr r, calls @ [flux_request self image_url prompt strength])) \<and>
   (\<exists>r. edit_image_qwen self v image_url prompt calls =
          (Inr r, calls @ [qwen_request self image_url prompt])) \<and>
   (\<exists>r. remove_background self v image_url calls =
          (Inr r, calls @ [rembg_request self image_url])) \<and>
   (\<exists>r. upscale_image rt self v image_url scale calls =
          (Inr r, calls @ [esrgan_request self image_url scale])) \<and>
   (v (flux_request self image_url prompt strength) = Inl e \<or>
    (\<exists>resp. v (flux_request self image_url prompt strength) = Inr resp \<and> status_code resp = 200 \<and>
       (resp_json resp = Inl e \<or>
        (\<exists>result. resp_json resp = Inr result \<and> images_0_url result = Inl e)))
    \<longrightarrow> edit_image_flux self v image_url prompt strength calls =
          (Inr (PDict [(''success'', PBool False), (''error'', PStr (exn_str e))]),
           calls @ [flux_request self image_url prompt strength])) \<and>
   (v (qwen_request self image_url prompt) = Inl e \<or>
    (\<exists>resp. v (qwen_request self image_url prompt) = Inr resp \<and> status_code resp = 200 \<and>
       (resp_json resp = Inl e \<or>
        (\<exists>result. resp_json resp = Inr result \<and> image_url_of result = Inl e)))
    \<longrightarrow> edit_image_qwen self v image_url prompt calls =
          (Inr (PDict [(''success'', PBool False), (''error'', PStr (exn_str e))]),
           calls @ [qwen_request self image_url prompt])) \<and>
   (v (rembg_request self image_url) = Inl e \<or>
    (\<exists>resp. v (rembg_request self image_url) = Inr resp \<and> status_code resp = 200 \<and>
       (resp_json resp = Inl e \<or>
        (\<exists>result. resp_json resp = Inr result \<and> image_url_of result = Inl e)))
    \<longrightarrow> remove_background self v image_url calls =
          (Inr (PDict [(''success'', PBool False), (''error'', PStr (exn_str e))]),
           calls @ [rembg_request self image_url])) \<and>
   (v (esrgan_request self image_url scale) = Inl e \<or>
    (\<exists>resp. v (esrgan_request self image_url scale) = Inr resp \<and> status_code resp = 200 \<and>
       (resp_json resp = Inl e \<or>
        (\<exists>result. resp_json resp = Inr result \<and> image_url_of result = Inl e)))
    \<longrightarrow> upscale_image rt self v image_url scale calls =
          (Inr (PDict [(''success'', PBool False), (''error'', PStr (exn_str e))]),
           calls @ [esrgan_request self image_url scale]))"
proof -
  have flux: "\<exists>r. edit_image_flux self v image_url prompt strength calls =
      (Inr r, calls @ [flux_request self image_url prompt strength])"
    by (rule edit_image_flux_returns)
  have qwen: "\<exists>r. edit_image_qwen self v image_url prompt calls =
      (Inr r, calls @ [qwen_request self image_url prompt])"
    by (rule edit_image_qwen_returns)
  have rembg: "\<exists>r. remove_background self v image_url calls =
      (Inr r, calls @ [rembg_request self image_url])"
    by (rule remove_background_returns)
  have esrgan: "\<exists>r. upscale_image rt self v image_url scale calls =
      (Inr r, calls @ [esrgan_request self image_url scale])"
    by (rule upscale_image_returns)
  have flux_e: "v (flux_request self image_url prompt strength) = Inl e \<or>
    (\<exists>resp. v (flux_request self image_url prompt strength) = Inr resp \<and> status_code resp = 200 \<and>
       (resp_json resp = Inl e \<or>
        (\<exists>result. resp_json resp = Inr result \<and> images_0_url result = Inl e)))
    \<longrightarrow> edit_image_flux self v image_url prompt strength calls =
          (Inr (PDict [(''success'', PBool False), (''error'', PStr (exn_str e))]),
           calls @ [flux_request self image_url prompt strength])"
    using edit_image_flux_transport_raises edit_image_flux_json_raises
      edit_image_flux_subscript_raises by auto
  have qwen_e: "v (qwen_request self image_url prompt) = Inl e \<or>
    (\<exists>resp. v (qwen_request self image_url prompt) = Inr resp \<and> status_code resp = 200 \<and>
       (resp_json resp = Inl e \<or>
        (\<exists>result. resp_json resp = Inr result \<and> image_url_of result = Inl e)))
    \<longrightarrow> edit_image_qwen self v image_url prompt calls =
          (Inr (PDict [(''success'', PBool False), (''error'', PStr (exn_str e))]),
           calls @ [qwen_request self image_url prompt])"
    using edit_image_qwen_transport_raises edit_image_qwen_json_raises
      edit_image_qwen_subscript_raises by auto
  have rembg_e: "v (rembg_request self image_url) = Inl e \<or>
    (\<exists>resp. v (rembg_request self image_url) = Inr resp \<and> status_code resp = 200 \<and>
       (resp_json resp = Inl e \<or>
        (\<exists>result. resp_json resp = Inr result \<and> image_url_of result = Inl e)))
    \<longrightarrow> remove_background self v image_url calls =
          (Inr (PDict [(''success'', PBool False), (''error'', PStr (exn_str e))]),
           calls @ [rembg_request self image_url])"
    using remove_background_transport_raises remove_background_json_raises
      remove_background_subscript_raises by auto
  have esrgan_e: "v (esrgan_request self image_url scale) = Inl e \<or>
    (\<exists>resp. v (esrgan_request self image_url scale) = Inr resp \<and> status_code resp = 200 \<and>
       (resp_json resp = Inl e \<or>
        (\<exists>result. resp_json resp = Inr result \<and> image_url_of result = Inl e)))
    \<longrightarrow> upscale_image rt self v image_url scale calls =
          (Inr (PDict [(''success'', PBool False), (''error'', PStr (exn_str e))]),
           calls @ [esrgan_request self image_url scale])"
    using upscale_image_transport_raises upscale_image_json_raises
      upscale_image_subscript_raises by auto
  from flux qwen rembg esrgan flux_e qwen_e rembg_e esrgan_e show ?thesis
    by (intro conjI)
qed

theorem client_never_raises_witness:
  "edit_image_flux sample_editor vendor_down (PStr ''http://x/img.png'') (PStr ''add a hat'')
      (PFloat float_0_8) [] =
     (Inr (PDict [(''success'', PBool False),
                  (''error'', PStr ''All connection attempts failed'')]),
      [flux_request sample_editor (PStr ''http://x/img.png'') (PStr ''add a hat'')
         (PFloat float_0_8)]) \<and>
   edit_image_qwen sample_editor vendor_down (PStr ''http://x/img.png'') (PStr ''add a hat'') [] =
     (Inr (PDict [(''success'', PBool False),
                  (''error'', PStr ''All connection attempts failed'')]),
      [qwen_request sample_editor (PStr ''http://x/img.png'') (PStr ''add a hat'')]) \<and>
   remove_background sample_editor vendor_down (PStr ''http://x/img.png'') [] =
     (Inr (PDict [(''success'', PBool False),
                  (''error'', PStr ''All connection attempts failed'')]),
      [rembg_request sample_editor (PStr ''http://x/img.png'')]) \<and>
   upscale_image sample_runtime sample_editor vendor_down (PStr ''http://x/img.png'') (PInt 4) [] =
     (Inr (PDict [(''success'', PBool False),
                  (''error'', PStr ''All connection attempts failed'')]),
      [esrgan_request sample_editor (PStr ''http://x/img.png'') (PInt 4)])"
  using client_never_raises [where
      e = "PyExn ''ConnectError'' ''All connection attempts failed''"
      and v = vendor_down and self = sample_editor and image_url = "PStr ''http://x/img.png''"
      and prompt = "PStr ''add a hat''" and strength = "PFloat float_0_8" and calls = "[]"
      and scale = "PInt 4" and rt = sample_runtime]
  by (simp add: vendor_down_def)

text \<open>
  An instance of the last case: a 200 response whose body is the empty object makes
  the first subscript raise \<open>KeyError\<close>, and the failure carries its text.
\<close>

lemma edit_image_flux_empty_body:
  "edit_image_flux sample_editor
     (\<lambda>req. Inr \<lparr>status_code = 200, resp_text = ''{}'', resp_json = Inr (PDict [])\<rparr>)
     (PStr ''http://x/img.png'') (PStr ''add a hat'') (PFloat float_0_8) [] =
   (Inr (PDict [(''success'', PBool False), (''error'', PStr (squote ''images''))]),
    [flux_request sample_editor (PStr ''http://x/img.png'') (PStr ''add a hat'')
       (PFloat float_0_8)])"
  by (simp add: edit_image_flux_def io_simps images_0_url_def)

section \<open>Properties of the tool-protocol front-end\<close>

lemma tools_required_table:
  "map (\<lambda>t. (tool_name t, required_args t)) TOOLS =
     [(''edit_image_flux'', [''image_url'', ''prompt'']),
      (''edit_image_qwen'', [''image_url'', ''prompt'']),
      (''remove_background'', [''image_url'']),
      (''upscale_image'', [''image_url''])]"
  by (simp add: TOOLS_def required_args_def)

lemma dict_get_absent: "map_of d k = None \<Longrightarrow> dict_get d k dflt = dflt"
  by (simp add: dict_get_def)

lemma dict_get_head: "dict_get ((k, v) # d) k dflt = v"
  by (simp add: dict_get_def)

lemma dict_get_other: "k' \<noteq> k \<Longrightarrow> dict_get ((k, v) # d) k' dflt = dict_get d k' dflt"
  by (simp add: dict_get_def)

lemma handle_call_tool_unknown:
  assumes "name \<noteq> ''edit_image_flux''" and "name \<noteq> ''edit_image_qwen''"
    and "name \<noteq> ''remove_background''" and "name \<noteq> ''upscale_image''"
  shows "handle_call_tool rt ed name arguments calls =
     (Inr (CallToolResult [TextContent ''text'' (''Error: Unknown tool '' @ squote name)] True),
      calls)"
  using assms by (simp add: handle_call_tool_def io_simps)

lemma handle_call_tool_flux_rejects:
  assumes "\<not> py_truthy (dict_get arguments ''image_url'' PNone) \<or>
           \<not> py_truthy (dict_get arguments ''prompt'' PNone)"
  shows "handle_call_tool rt ed ''edit_image_flux'' arguments calls =
     (Inr (CallToolResult
        [TextContent ''text'' ''Error: image_url and prompt are required''] True), calls)"
  using assms by (auto simp add: handle_call_tool_def io_simps Let_def)

lemma handle_call_tool_qwen_rejects:
  assumes "\<not> py_truthy (dict_get arguments ''image_url'' PNone) \<or>
           \<not> py_truthy (dict_get arguments ''prompt'' PNone)"
  shows "handle_call_tool rt ed ''edit_image_qwen'' arguments calls =
     (Inr (CallToolResult
        [TextContent ''text'' ''Error: image_url and prompt are required''] True), calls)"
  using assms by (auto simp add: handle_call_tool_def io_simps Let_def)

lemma handle_call_tool_rembg_rejects:
  assumes "\<not> py_truthy (dict_get arguments ''image_url'' PNone)"
  shows "handle_call_tool rt ed ''remove_background'' arguments calls =
     (Inr (CallToolResult [TextContent ''text'' ''Error: image_url is required''] True), calls)"
  using assms by (simp add: handle_call_tool_def io_simps Let_def)

lemma handle_call_tool_upscale_rejects:
  assumes "\<not> py_truthy (dict_get arguments ''image_url'' PNone)"
  shows "handle_call_tool rt ed ''upscale_image'' arguments calls =
     (Inr (CallToolResult [TextContent ''text'' ''Error: image_url is required''] True), calls)"
  using assms by (simp add: handle_call_tool_def io_simps Let_def)

lemma handle_call_tool_returns:
  "\<exists>r calls'. handle_call_tool rt ed name arguments calls = (Inr r, calls')"
  unfolding handle_call_tool_def io_try_def io_return_def
  by (auto split: sum.splits prod.splits)

lemma format_response_calls: "snd (format_response rt result calls) = calls"
  by (auto simp add: format_response_def io_simps split: sum.splits)

lemma handle_call_tool_flux_calls:
  assumes "py_truthy (dict_get arguments ''image_url'' PNone)"
    and "py_truthy (dict_get arguments ''prompt'' PNone)"
  shows "handle_call_tool rt ed ''edit_image_flux'' arguments calls =
     io_try
       (io_bind
          (call_edit_image_flux ed (dict_get arguments ''image_url'' PNone)
             (dict_get arguments ''prompt'' PNone)
             (dict_get arguments ''strength'' (PFloat float_0_8)))
          (format_response rt))
       (\<lambda>e. io_return (CallToolResult
                [TextContent ''text'' (''Internal error: '' @ exn_str e)] True)) calls"
  using assms
  by (auto simp add: handle_call_tool_def io_simps Let_def split: sum.splits prod.splits)

lemma handle_call_tool_qwen_calls:
  assumes "py_truthy (dict_get arguments ''image_url'' PNone)"
    and "py_truthy (dict_get arguments ''prompt'' PNone)"
  shows "handle_call_tool rt ed ''edit_image_qwen'' arguments calls =
     io_try
       (io_bind
          (call_edit_image_qwen ed (dict_get arguments ''image_url'' PNone)
             (dict_get arguments ''prompt'' PNone))
          (format_response rt))
       (\<lambda>e. io_return (CallToolResult
                [TextContent ''text'' (''Internal error: '' @ exn_str e)] True)) calls"
  using assms
  by (auto simp add: handle_call_tool_def io_simps Let_def split: sum.splits prod.splits)

lemma handle_call_tool_rembg_calls:
  assumes "py_truthy (dict_get arguments ''image_url'' PNone)"
  shows "handle_call_tool rt ed ''remove_background'' arguments calls =
     io_try
       (io_bind
          (call_remove_background ed (dict_get arguments ''image_url'' PNone))
          (format_response rt))
       (\<lambda>e. io_return (CallToolResult
                [TextContent ''text'' (''Internal error: '' @ exn_str e)] True)) calls"
  using assms
  by (auto simp add: handle_call_tool_def io_simps Let_def split: sum.splits prod.splits)

lemma handle_call_tool_upscale_calls:
  assumes "py_truthy (dict_get arguments ''image_url'' PNone)"
  shows "handle_call_tool rt ed ''upscale_image'' arguments calls =
     io_try
       (io_bind
          (call_upscale_image ed (dict_get arguments ''image_url'' PNone)
             (dict_get arguments ''scale'' (PInt 2)))
          (format_response rt))
       (\<lambda>e. io_return (CallToolResult
                [TextContent ''text'' (''Internal error: '' @ exn_str e)] True)) calls"
  using assms
  by (auto simp add: handle_call_tool_def io_simps Let_def split: sum.splits prod.splits)

lemma io_try_reports:
  assumes "m calls = (Inl e, calls')"
  shows "io_try m (\<lambda>e. io_return (h e)) calls = (Inr (h e), calls')"
  using assms by (simp add: io_try_def io_return_def)

lemma io_try_format_calls:
  assumes "m calls = (Inr r, calls')"
  shows "snd (io_try (io_bind m (format_response rt)) (\<lambda>e. io_return (h e)) calls) = calls'"
proof -
  obtain x c where fr: "format_response rt r calls' = (x, c)"
    by (cases "format_response rt r calls'")
  with format_response_calls [of rt r calls'] have "c = calls'" by simp
  with fr assms show ?thesis
    by (cases x) (simp_all add: io_try_def io_bind_def io_return_def)
qed

lemma format_response_success:
  "format_response rt (PDict [(''success'', PBool True), (''image_url'', u),
                               (''model'', m), (''prompt'', p)]) calls =
     (Inr (CallToolResult
        [TextContent ''text''
           (check_mark @ '' Image edited successfully!'' @ [CHR 0x0A, CHR 0x0A]
              @ ''**Model:** '' @ py_str rt m @ [CHR 0x0A]
              @ ''**Prompt:** '' @ py_str rt p @ [CHR 0x0A]
              @ ''**Result:** '' @ py_str rt u)] False), calls)"
  by (simp add: format_response_def io_simps)

lemma format_response_failure:
  "format_response rt (PDict [(''success'', PBool False), (''error'', err)]) calls =
     (Inr (CallToolResult
        [TextContent ''text'' (cross_mark @ '' Error editing image: '' @ py_str rt err)] True),
      calls)"
  by (simp add: format_response_def io_simps)

text \<open>
  The handler from end to end on the sample vendor: the success text names the model,
  the prompt and the vendor's URL; a vendor that is down gives the failure line.
\<close>

lemma handle_call_tool_success_example:
  "handle_call_tool sample_runtime (image_editor sample_runtime sample_editor vendor_ok)
      ''edit_image_qwen''
      [(''image_url'', PStr ''http://x/img.png''), (''prompt'', PStr ''add a hat'')] [] =
     (Inr (CallToolResult
        [TextContent ''text''
           (check_mark @ '' Image edited successfully!'' @ [CHR 0x0A, CHR 0x0A]
              @ ''**Model:** Qwen Image Edit'' @ [CHR 0x0A]
              @ ''**Prompt:** add a hat'' @ [CHR 0x0A]
              @ ''**Result:** https://cdn.example/out.png'')] False),
      [qwen_request sample_editor (PStr ''http://x/img.png'') (PStr ''add a hat'')])"
  by (simp add: handle_call_tool_def dict_get_def image_editor_def edit_image_qwen_def
      image_url_of_def vendor_ok_def sample_body_def format_response_def io_simps)

lemma handle_call_tool_failure_example:
  "handle_call_tool sample_runtime (image_editor sample_runtime sample_editor vendor_down)
      ''remove_background'' [(''image_url'', PStr ''http://x/img.png'')] [] =
     (Inr (CallToolResult
        [TextContent ''text''
           (cross_mark @ '' Error editing image: All connection attempts failed'')] True),
      [rembg_request sample_editor (PStr ''http://x/img.png'')])"
  by (simp add: handle_call_tool_def dict_get_def image_editor_def remove_background_def
      vendor_down_def format_response_def io_simps)

lemma tool_names: "map tool_name TOOLS =
   [''edit_image_flux'', ''edit_image_qwen'', ''remove_background'', ''upscale_image'']"
  by (simp add: TOOLS_def)

lemma sublist_squote: "sublist s (p @ squote s)"
proof -
  have "p @ squote s = (p @ [CHR 0x27]) @ s @ [CHR 0x27]"
    by (simp add: squote_def)
  then show ?thesis
    by (simp only: sublist_appendI)
qed

text \<open>
  C5. In the tool-protocol front-end, a call whose name is none of the four declared
  tool names returns the error result whose text is \<open>Error: Unknown tool '<name>'\<close>:
  it contains \<open>Unknown tool '<name>'\<close> with the requested name unchanged. This holds for
  every editor object and leaves the list of outbound calls as it was: no vendor call
  is made.
\<close>

theorem unknown_tool_is_reported:
  assumes "name \<notin> set (map tool_name TOOLS)"
  shows "handle_call_tool rt ed name arguments calls =
     (Inr (CallToolResult [TextContent ''text'' (''Error: Unknown tool '' @ squote name)] True),
      calls) \<and>
   sublist (''Unknown tool '' @ squote name) (''Error: Unknown tool '' @ squote name) \<and>
   sublist name (''Error: Unknown tool '' @ squote name)"
proof -
  from assms have "name \<noteq> ''edit_image_flux''" and "name \<noteq> ''edit_image_qwen''"
    and "name \<noteq> ''remove_background''" and "name \<noteq> ''upscale_image''"
    unfolding tool_names by simp_all
  then have "handle_call_tool rt ed name arguments calls =
     (Inr (CallToolResult [TextContent ''text'' (''Error: Unknown tool '' @ squote name)] True),
      calls)"
    by (rule handle_call_tool_unknown)
  moreover have "sublist (''Unknown tool '' @ squote name)
      (''Error: '' @ (''Unknown tool '' @ squote name))"
    by (rule sublist_append_leftI)
  then have "sublist (''Unknown tool '' @ squote name) (''Error: Unknown tool '' @ squote name)"
    by simp
  moreover have "sublist name (''Error: Unknown tool '' @ squote name)"
    by (rule sublist_squote)
  ultimately show ?thesis by simp
qed

theorem unknown_tool_is_reported_witness:
  "''crop_image'' \<notin> set (map tool_name TOOLS) \<and>
   handle_call_tool sample_runtime (image_editor sample_runtime sample_editor vendor_ok)
       ''crop_image'' [(''image_url'', PStr ''http://x/img.png'')] [] =
     (Inr (CallToolResult
        [TextContent ''text'' (''Error: Unknown tool '' @ squote ''crop_image'')] True), [])"
  using unknown_tool_is_reported [of "''crop_image''" sample_runtime
      "image_editor sample_runtime sample_editor vendor_ok"
      "[(''image_url'', PStr ''http://x/img.png'')]" "[]"]
  by (simp add: tool_names)

lemma required_message_contains:
  "sublist ''image_url'' ''Error: image_url and prompt are required''"
  "sublist ''prompt'' ''Error: image_url and prompt are required''"
  "sublist ''image_url'' ''Error: image_url is required''"
  by (simp_all add: sublist_Cons_right)

lemma handle_call_tool_rejects:
  assumes "t \<in> set TOOLS" and "k \<in> set (required_args t)"
    and "\<not> py_truthy (dict_get arguments k PNone)"
  shows "handle_call_tool rt ed (tool_name t) arguments calls =
     (Inr (CallToolResult
        [TextContent ''text''
           (if ''prompt'' \<in> set (required_args t)
            then ''Error: image_url and prompt are required''
            else ''Error: image_url is required'')] True), calls) \<and>
   sublist k (if ''prompt'' \<in> set (required_args t)
              then ''Error: image_url and prompt are required''
              else ''Error: image_url is required'')"
proof -
  note absent = assms(3)
  from assms(1) have "(tool_name t, required_args t) \<in>
      set (map (\<lambda>t. (tool_name t, required_args t)) TOOLS)"
    by (simp add: image_iff) blast
  then consider
      (flux) "tool_name t = ''edit_image_flux''" "required_args t = [''image_url'', ''prompt'']"
    | (qwen) "tool_name t = ''edit_image_qwen''" "required_args t = [''image_url'', ''prompt'']"
    | (rembg) "tool_name t = ''remove_background''" "required_args t = [''image_url'']"
    | (esrgan) "tool_name t = ''upscale_image''" "required_args t = [''image_url'']"
    unfolding tools_required_table by auto
  then show ?thesis
  proof cases
    case flux
    with assms(2) absent have "\<not> py_truthy (dict_get arguments ''image_url'' PNone) \<or>
        \<not> py_truthy (dict_get arguments ''prompt'' PNone)"
      by auto
    then have "handle_call_tool rt ed ''edit_image_flux'' arguments calls =
       (Inr (CallToolResult
          [TextContent ''text'' ''Error: image_url and prompt are required''] True), calls)"
      by (rule handle_call_tool_flux_rejects)
    with flux assms(2) show ?thesis
      using required_message_contains by auto
  next
    case qwen
    with assms(2) absent have "\<not> py_truthy (dict_get arguments ''image_url'' PNone) \<or>
        \<not> py_truthy (dict_get arguments ''prompt'' PNone)"
      by auto
    then have "handle_call_tool rt ed ''edit_image_qwen'' arguments calls =
       (Inr (CallToolResult
          [TextContent ''text'' ''Error: image_url and prompt are required''] True), calls)"
      by (rule handle_call_tool_qwen_rejects)
    with qwen assms(2) show ?thesis
      using required_message_contains by auto
  next
    case rembg
    with assms(2) absent have "\<not> py_truthy (dict_get arguments ''image_url'' PNone)"
      by auto
    then have "handle_call_tool rt ed ''remove_background'' arguments calls =
       (Inr (CallToolResult [TextContent ''text'' ''Error: image_url is required''] True), calls)"
      by (rule handle_call_tool_rembg_rejects)
    with rembg assms(2) show ?thesis
      using required_message_contains by auto
  next
    case esrgan
    with assms(2) absent have "\<not> py_truthy (dict_get arguments ''image_url'' PNone)"
      by auto
    then have "handle_call_tool rt ed ''upscale_image'' arguments calls =
       (Inr (CallToolResult [TextContent ''text'' ''Error: image_url is required''] True), calls)"
      by (rule handle_call_tool_upscale_rejects)
    with esrgan assms(2) show ?thesis
      using required_message_contains by auto
  qed
qed

text \<open>
  C6. In the tool-protocol front-end, when an argument that the tool's declaration
  lists under \<open>required\<close> (\<open>image_url\<close> for all four tools, \<open>prompt\<close> also for the two
  edit tools) is absent from the argument mapping, the handler returns the error result
  naming what is required (\<open>Error: image_url and prompt are required\<close> for the edit
  tools, \<open>Error: image_url is required\<close> for the other two; the text contains the
  missing argument's name). The result is the same for every editor object and the
  list of outbound calls is unchanged: the client method is not invoked.
\<close>

theorem missing_required_argument_is_rejected:
  assumes "t \<in> set TOOLS" and "k \<in> set (required_args t)" and "map_of arguments k = None"
  shows "handle_call_tool rt ed (tool_name t) arguments calls =
     (Inr (CallToolResult
        [TextContent ''text''
           (if ''prompt'' \<in> set (required_args t)
            then ''Error: image_url and prompt are required''
            else ''Error: image_url is required'')] True), calls) \<and>
   sublist k (if ''prompt'' \<in> set (required_args t)
              then ''Error: image_url and prompt are required''
              else ''Error: image_url is required'')"
proof -
  from assms(3) have "\<not> py_truthy (dict_get arguments k PNone)"
    by (simp add: dict_get_absent)
  with assms(1,2) show ?thesis
    by (rule handle_call_tool_rejects)
qed

theorem missing_required_argument_is_rejected_witness:
  "TOOLS ! 0 \<in> set TOOLS \<and> ''prompt'' \<in> set (required_args (TOOLS ! 0)) \<and>
   map_of [(''image_url'', PStr ''http://x/img.png'')] ''prompt'' = None \<and>
   handle_call_tool sample_runtime (image_editor sample_runtime sample_editor vendor_ok)
       ''edit_image_flux'' [(''image_url'', PStr ''http://x/img.png'')] [] =
     (Inr (CallToolResult
        [TextContent ''text'' ''Error: image_url and prompt are required''] True), [])"
  using missing_required_argument_is_rejected [of "TOOLS ! 0" "''prompt''"
      "[(''image_url'', PStr ''http://x/img.png'')]" sample_runtime
      "image_editor sample_runtime sample_editor vendor_ok" "[]"]
  by (simp add: TOOLS_def required_args_def)

section \<open>Properties of the HTTP front-end\<close>

lemma py_or_dict: "py_or (PDict d) (PDict []) = PDict d"
  by (cases d) (simp_all add: py_or_def)

lemma edit_flux_not_mapping:
  assumes "py_get (py_or get_json (PDict [])) ''image_url'' PNone = Inl e"
  shows "edit_flux rt editor get_json calls = (Inl e, calls)"
  using assms by (simp add: edit_flux_def io_simps Let_def)

lemma edit_qwen_not_mapping:
  assumes "py_get (py_or get_json (PDict [])) ''image_url'' PNone = Inl e"
  shows "edit_qwen editor get_json calls = (Inl e, calls)"
  using assms by (simp add: edit_qwen_def io_simps Let_def)

lemma remove_bg_not_mapping:
  assumes "py_get (py_or get_json (PDict [])) ''image_url'' PNone = Inl e"
  shows "remove_bg editor get_json calls = (Inl e, calls)"
  using assms by (simp add: remove_bg_def io_simps Let_def)

lemma upscale_not_mapping:
  assumes "py_get (py_or get_json (PDict [])) ''image_url'' PNone = Inl e"
  shows "upscale rt editor get_json calls = (Inl e, calls)"
  using assms by (simp add: upscale_def io_simps Let_def)

lemma edit_flux_bad_strength:
  assumes "py_or get_json (PDict []) = PDict d"
    and "py_float rt (dict_get d ''strength'' (PFloat float_0_8)) = Inl e"
  shows "edit_flux rt editor get_json calls = (Inl e, calls)"
  using assms by (simp add: edit_flux_def io_simps Let_def)

lemma upscale_bad_scale:
  assumes "py_or get_json (PDict []) = PDict d"
    and "py_int rt (dict_get d ''scale'' (PInt 2)) = Inl e"
  shows "upscale rt editor get_json calls = (Inl e, calls)"
  using assms by (simp add: upscale_def io_simps Let_def)

lemma edit_flux_rejects:
  assumes "py_or get_json (PDict []) = PDict d"
    and "py_float rt (dict_get d ''strength'' (PFloat float_0_8)) = Inr f"
    and "\<not> py_truthy (dict_get d ''image_url'' PNone) \<or>
         \<not> py_truthy (dict_get d ''prompt'' PNone)"
  shows "edit_flux rt editor get_json calls =
     (Inr (JsonResponse (PDict [(''success'', PBool False),
                               (''error'', PStr ''image_url and prompt are required'')]) 400),
      calls)"
  using assms by (auto simp add: edit_flux_def io_simps Let_def)

lemma edit_qwen_rejects:
  assumes "py_or get_json (PDict []) = PDict d"
    and "\<not> py_truthy (dict_get d ''image_url'' PNone) \<or>
         \<not> py_truthy (dict_get d ''prompt'' PNone)"
  shows "edit_qwen editor get_json calls =
     (Inr (JsonResponse (PDict [(''success'', PBool False),
                               (''error'', PStr ''image_url and prompt are required'')]) 400),
      calls)"
  using assms by (auto simp add: edit_qwen_def io_simps Let_def)

lemma remove_bg_rejects:
  assumes "py_or get_json (PDict []) = PDict d"
    and "\<not> py_truthy (dict_get d ''image_url'' PNone)"
  shows "remove_bg editor get_json calls =
     (Inr (JsonResponse (PDict [(''success'', PBool False),
                               (''error'', PStr ''image_url is required'')]) 400),
      calls)"
  using assms by (simp add: remove_bg_def io_simps Let_def)

lemma upscale_rejects:
  assumes "py_or get_json (PDict []) = PDict d"
    and "py_int rt (dict_get d ''scale'' (PInt 2)) = Inr n"
    and "\<not> py_truthy (dict_get d ''image_url'' PNone)"
  shows "upscale rt editor get_json calls =
     (Inr (JsonResponse (PDict [(''success'', PBool False),
                               (''error'', PStr ''image_url is required'')]) 400),
      calls)"
  using assms by (simp add: upscale_def io_simps Let_def)

lemma upscale_calls_client:
  assumes "py_or get_json (PDict []) = PDict d"
    and "py_int rt (dict_get d ''scale'' (PInt 2)) = Inr n"
    and "py_truthy (dict_get d ''image_url'' PNone)"
  shows "upscale rt editor get_json calls =
     io_bind (call_upscale_image editor (dict_get d ''image_url'' PNone) (PInt n)) (\<lambda>result.
     io_bind (io_lift (py_get result ''success'' PNone)) (\<lambda>ok.
     io_return (JsonResponse result (if py_truthy ok then 200 else 500)))) calls"
  using assms by (simp add: upscale_def io_simps Let_def)

lemma edit_flux_calls_client:
  assumes "py_or get_json (PDict []) = PDict d"
    and "py_float rt (dict_get d ''strength'' (PFloat float_0_8)) = Inr f"
    and "py_truthy (dict_get d ''image_url'' PNone)"
    and "py_truthy (dict_get d ''prompt'' PNone)"
  shows "edit_flux rt editor get_json calls =
     io_bind (call_edit_image_flux editor (dict_get d ''image_url'' PNone)
                (dict_get d ''prompt'' PNone) (PFloat f)) (\<lambda>result.
     io_bind (io_lift (py_get result ''success'' PNone)) (\<lambda>ok.
     io_return (JsonResponse result (if py_truthy ok then 200 else 500)))) calls"
  using assms by (simp add: edit_flux_def io_simps Let_def)

lemma dispatch_routes:
  "dispatch_request rt editor ''GET'' ''/health'' get_json = Some health"
  "dispatch_request rt editor ''POST'' ''/edit/flux'' get_json = Some (edit_flux rt editor get_json)"
  "dispatch_request rt editor ''POST'' ''/edit/qwen'' get_json = Some (edit_qwen editor get_json)"
  "dispatch_request rt editor ''POST'' ''/remove-bg'' get_json = Some (remove_bg editor get_json)"
  "dispatch_request rt editor ''POST'' ''/upscale'' get_json = Some (upscale rt editor get_json)"
  by (simp_all add: dispatch_request_def url_map_def)

text \<open>
  C9. A GET to \<open>/health\<close> is served by the \<open>health\<close> view, which returns status 200 with
  the body \<open>{"ok": true, "service": "fal-ai-mcp-http"}\<close>. This holds for every runtime,
  every editor object (so every API key and every vendor), every request body and
  every earlier state, and the list of outbound calls is unchanged: no vendor call.
\<close>

theorem health_is_unconditional:
  "dispatch_request rt editor ''GET'' ''/health'' get_json = Some health \<and>
   health calls =
     (Inr (JsonResponse (PDict [(''ok'', PBool True),
                               (''service'', PStr ''fal-ai-mcp-http'')]) 200), calls)"
  by (simp add: dispatch_routes health_def io_return_def)

theorem health_is_unconditional_witness:
  "dispatch_request sample_runtime (image_editor sample_runtime sample_editor vendor_down)
      ''GET'' ''/health'' PNone = Some health \<and>
   health [] =
     (Inr (JsonResponse (PDict [(''ok'', PBool True),
                               (''service'', PStr ''fal-ai-mcp-http'')]) 200), [])"
  using health_is_unconditional [of sample_runtime
      "image_editor sample_runtime sample_editor vendor_down" PNone "[]"]
  by simp

section \<open>Defaults, exceptions and false values in the two front-ends\<close>

lemma io_bind_status_calls:
  assumes "m calls = (Inr r, calls')"
  shows "snd (io_bind m (\<lambda>result.
     io_bind (io_lift (py_get result ''success'' PNone)) (\<lambda>ok.
     io_return (JsonResponse result (if py_truthy ok then 200 else 500)))) calls) = calls'"
  using assms by (cases "py_get r ''success'' PNone") (simp_all add: io_simps)

lemma upscale_default_scale_calls:
  assumes "py_or get_json (PDict []) = PDict d"
    and "map_of d ''scale'' = None"
    and "py_truthy (dict_get d ''image_url'' PNone)"
  shows "snd (upscale rt (image_editor rt self v) get_json calls) =
     calls @ [esrgan_request self (dict_get d ''image_url'' PNone) (PInt 2)]"
proof -
  from assms(2) have "py_int rt (dict_get d ''scale'' (PInt 2)) = Inr 2"
    by (simp add: dict_get_absent)
  from assms(1) this assms(3) have "upscale rt (image_editor rt self v) get_json calls =
     io_bind (call_upscale_image (image_editor rt self v) (dict_get d ''image_url'' PNone) (PInt 2))
       (\<lambda>result.
     io_bind (io_lift (py_get result ''success'' PNone)) (\<lambda>ok.
     io_return (JsonResponse result (if py_truthy ok then 200 else 500)))) calls"
    by (rule upscale_calls_client)
  moreover obtain r where
    "call_upscale_image (image_editor rt self v) (dict_get d ''image_url'' PNone) (PInt 2) calls =
       (Inr r, calls @ [esrgan_request self (dict_get d ''image_url'' PNone) (PInt 2)])"
    using upscale_image_returns [of rt self v "dict_get d ''image_url'' PNone" "PInt 2" calls]
    by (auto simp add: image_editor_def)
  ultimately show ?thesis
    by (simp add: io_bind_status_calls)
qed

lemma tool_upscale_default_scale_calls:
  assumes "map_of arguments ''scale'' = None"
    and "py_truthy (dict_get arguments ''image_url'' PNone)"
  shows "snd (handle_call_tool rt (image_editor rt self v) ''upscale_image'' arguments calls) =
     calls @ [esrgan_request self (dict_get arguments ''image_url'' PNone) (PInt 2)]"
proof -
  from assms(1) have sc: "dict_get arguments ''scale'' (PInt 2) = PInt 2"
    by (simp add: dict_get_absent)
  obtain r where
    "call_upscale_image (image_editor rt self v) (dict_get arguments ''image_url'' PNone)
       (PInt 2) calls =
       (Inr r, calls @ [esrgan_request self (dict_get arguments ''image_url'' PNone) (PInt 2)])"
    using upscale_image_returns [of rt self v "dict_get arguments ''image_url'' PNone" "PInt 2" calls]
    by (auto simp add: image_editor_def)
  then show ?thesis
    using handle_call_tool_upscale_calls [OF assms(2), of rt "image_editor rt self v" calls] sc
    by (simp add: io_try_format_calls)
qed

lemma tool_flux_default_strength_calls:
  assumes "map_of arguments ''strength'' = None"
    and "py_truthy (dict_get arguments ''image_url'' PNone)"
    and "py_truthy (dict_get arguments ''prompt'' PNone)"
  shows "snd (handle_call_tool rt (image_editor rt self v) ''edit_image_flux'' arguments calls) =
     calls @ [flux_request self (dict_get arguments ''image_url'' PNone)
                (dict_get arguments ''prompt'' PNone) (PFloat float_0_8)]"
proof -
  from assms(1) have st: "dict_get arguments ''strength'' (PFloat float_0_8) = PFloat float_0_8"
    by (simp add: dict_get_absent)
  obtain r where
    "call_edit_image_flux (image_editor rt self v) (dict_get arguments ''image_url'' PNone)
       (dict_get arguments ''prompt'' PNone) (PFloat float_0_8) calls =
       (Inr r, calls @ [flux_request self (dict_get arguments ''image_url'' PNone)
                (dict_get arguments ''prompt'' PNone) (PFloat float_0_8)])"
    using edit_image_flux_returns [of self v "dict_get arguments ''image_url'' PNone"
        "dict_get arguments ''prompt'' PNone" "PFloat float_0_8" calls]
    by (auto simp add: image_editor_def)
  then show ?thesis
    using handle_call_tool_flux_calls [OF assms(2,3), of rt "image_editor rt self v" calls] st
    by (simp add: io_try_format_calls)
qed

text \<open>
  C8. When \<open>scale\<close> is not supplied, the upscale operation runs with scale 2 in both
  front-ends. A POST to \<open>/upscale\<close> whose body is an object with a (true) \<open>image_url\<close> and
  no \<open>scale\<close> is served by the \<open>upscale\<close> view, which calls the editor's
  \<open>upscale_image\<close> with the integer 2; with the client of this program the one outbound
  call is the ESRGAN request whose payload has \<open>scale\<close> 2. The tool handler does the
  same for \<open>upscale_image\<close> without a \<open>scale\<close> argument, and for \<open>edit_image_flux\<close>
  without a \<open>strength\<close> argument the one outbound call carries strength 0.8.
\<close>

theorem defaults_are_applied:
  "(py_or get_json (PDict []) = PDict d \<and> map_of d ''scale'' = None \<and>
    py_truthy (dict_get d ''image_url'' PNone)
    \<longrightarrow> dispatch_request rt (image_editor rt self v) ''POST'' ''/upscale'' get_json =
          Some (upscale rt (image_editor rt self v) get_json) \<and>
        upscale rt editor get_json calls =
          io_bind (call_upscale_image editor (dict_get d ''image_url'' PNone) (PInt 2))
            (\<lambda>result.
          io_bind (io_lift (py_get result ''success'' PNone)) (\<lambda>ok.
          io_return (JsonResponse result (if py_truthy ok then 200 else 500)))) calls \<and>
        snd (upscale rt (image_editor rt self v) get_json calls) =
          calls @ [esrgan_request self (dict_get d ''image_url'' PNone) (PInt 2)]) \<and>
   (map_of arguments ''scale'' = None \<and> py_truthy (dict_get arguments ''image_url'' PNone)
    \<longrightarrow> snd (handle_call_tool rt (image_editor rt self v) ''upscale_image'' arguments calls) =
          calls @ [esrgan_request self (dict_get arguments ''image_url'' PNone) (PInt 2)]) \<and>
   (map_of arguments ''strength'' = None \<and> py_truthy (dict_get arguments ''image_url'' PNone) \<and>
    py_truthy (dict_get arguments ''prompt'' PNone)
    \<longrightarrow> snd (handle_call_tool rt (image_editor rt self v) ''edit_image_flux'' arguments calls) =
          calls @ [flux_request self (dict_get arguments ''image_url'' PNone)
                     (dict_get arguments ''prompt'' PNone) (PFloat float_0_8)]) \<and>
   req_json (esrgan_request self u (PInt 2)) = [(''image_url'', u), (''scale'', PInt 2)] \<and>
   req_json (flux_request self u p (PFloat float_0_8)) =
     [(''image_url'', u), (''prompt'', p), (''strength'', PFloat float_0_8),
      (''num_inference_steps'', PInt 28), (''guidance_scale'', PFloat float_3_5)]"
proof -
  have http: "py_or get_json (PDict []) = PDict d \<and> map_of d ''scale'' = None \<and>
    py_truthy (dict_get d ''image_url'' PNone)
    \<longrightarrow> upscale rt editor get_json calls =
          io_bind (call_upscale_image editor (dict_get d ''image_url'' PNone) (PInt 2))
            (\<lambda>result.
          io_bind (io_lift (py_get result ''success'' PNone)) (\<lambda>ok.
          io_return (JsonResponse result (if py_truthy ok then 200 else 500)))) calls"
    using upscale_calls_client [of get_json d rt 2 editor calls]
    by (simp add: dict_get_absent)
  show ?thesis
    using http upscale_default_scale_calls [of get_json d rt self v calls]
      tool_upscale_default_scale_calls [of arguments rt self v calls]
      tool_flux_default_strength_calls [of arguments rt self v calls]
    by (simp add: dispatch_routes esrgan_request_def flux_request_def)
qed

theorem defaults_are_applied_witness:
  "snd (upscale sample_runtime (image_editor sample_runtime sample_editor vendor_ok)
          (PDict [(''image_url'', PStr ''http://x/img.png'')]) []) =
     [esrgan_request sample_editor (PStr ''http://x/img.png'') (PInt 2)] \<and>
   snd (handle_call_tool sample_runtime (image_editor sample_runtime sample_editor vendor_ok)
          ''upscale_image''
          [(''image_url'', PStr ''http://x/img.png''), (''prompt'', PStr ''add a hat'')] []) =
     [esrgan_request sample_editor (PStr ''http://x/img.png'') (PInt 2)] \<and>
   snd (handle_call_tool sample_runtime (image_editor sample_runtime sample_editor vendor_ok)
          ''edit_image_flux''
          [(''image_url'', PStr ''http://x/img.png''), (''prompt'', PStr ''add a hat'')] []) =
     [flux_request sample_editor (PStr ''http://x/img.png'') (PStr ''add a hat'')
        (PFloat float_0_8)]"
  using defaults_are_applied [where rt = sample_runtime and self = sample_editor
      and v = vendor_ok and get_json = "PDict [(''image_url'', PStr ''http://x/img.png'')]"
      and d = "[(''image_url'', PStr ''http://x/img.png'')]"
      and arguments = "[(''image_url'', PStr ''http://x/img.png''), (''prompt'', PStr ''add a hat'')]"
      and calls = "[]" and editor = raising_editor]
  by (simp add: py_or_def dict_get_def)

text \<open>
  The views themselves have no handler: a JSON body that is not an object makes the
  first \<open>data.get\<close> raise \<open>AttributeError\<close>, which leaves the view. It is the
  dispatcher around the view that answers.
\<close>

lemma edit_flux_raises_on_array_body:
  "edit_flux sample_runtime (image_editor sample_runtime sample_editor vendor_ok)
      (PList [PInt 1]) [] =
     (Inl (PyExn ''AttributeError''
        (squote ''list'' @ '' object has no attribute '' @ squote ''get'')), [])"
  by (simp add: edit_flux_def io_simps py_or_def)

lemma wsgi_app_returns:
  "\<exists>r calls'. wsgi_app rt ed meth path get_json calls = (Inr r, calls')"
  unfolding wsgi_app_def io_try_def io_bind_def io_return_def
  by (auto split: option.splits sum.splits prod.splits)

lemma wsgi_app_view_raises:
  assumes "dispatch_request rt ed meth path get_json = Some view"
    and "view calls = (Inl e, calls')"
  shows "wsgi_app rt ed meth path get_json calls = (Inr InternalServerError, calls')"
  using assms by (simp add: wsgi_app_def io_simps)

lemma wsgi_app_view_returns:
  assumes "dispatch_request rt ed meth path get_json = Some view"
    and "view calls = (Inr resp, calls')"
  shows "wsgi_app rt ed meth path get_json calls = (Inr (ViewResponse resp), calls')"
  using assms by (simp add: wsgi_app_def io_simps)

lemma wsgi_app_not_mapping:
  assumes "py_get (py_or get_json (PDict [])) ''image_url'' PNone = Inl e"
  shows "wsgi_app rt ed ''POST'' ''/edit/flux'' get_json calls = (Inr InternalServerError, calls)"
    and "wsgi_app rt ed ''POST'' ''/edit/qwen'' get_json calls = (Inr InternalServerError, calls)"
    and "wsgi_app rt ed ''POST'' ''/remove-bg'' get_json calls = (Inr InternalServerError, calls)"
    and "wsgi_app rt ed ''POST'' ''/upscale'' get_json calls = (Inr InternalServerError, calls)"
  using assms edit_flux_not_mapping [OF assms, of rt ed calls]
    edit_qwen_not_mapping [OF assms, of ed calls]
    remove_bg_not_mapping [OF assms, of ed calls]
    upscale_not_mapping [OF assms, of rt ed calls]
  by (simp_all add: wsgi_app_def dispatch_routes io_try_def io_bind_def io_return_def)

text \<open>
  C4. Any exception during dispatch is caught at the outermost handler of each
  front-end and reported as an internal error, and neither front-end lets it escape.
  In the tool-protocol front-end \<open>handle_call_tool\<close> returns a result on every input,
  and whatever the client method or the formatting of its result raises is returned as
  the error result with text \<open>Internal error: <message>\<close>. In the HTTP front-end the
  dispatcher returns a response for every method, path, body and state; when the view
  of the route raises, the response is the generic internal-error response, the same
  for every exception (so for a body that is not an object, on each of the four POST
  routes); otherwise it is the view's response.
\<close>

theorem front_ends_catch_exceptions:
  "(\<exists>r calls'. handle_call_tool rt ed name arguments calls = (Inr r, calls')) \<and>
   (py_truthy (dict_get arguments ''image_url'' PNone) \<and>
    py_truthy (dict_get arguments ''prompt'' PNone) \<and>
    io_bind (call_edit_image_flux ed (dict_get arguments ''image_url'' PNone)
               (dict_get arguments ''prompt'' PNone)
               (dict_get arguments ''strength'' (PFloat float_0_8)))
            (format_response rt) calls = (Inl e, calls')
    \<longrightarrow> handle_call_tool rt ed ''edit_image_flux'' arguments calls =
          (Inr (CallToolResult
             [TextContent ''text'' (''Internal error: '' @ exn_str e)] True), calls')) \<and>
   (py_truthy (dict_get arguments ''image_url'' PNone) \<and>
    py_truthy (dict_get arguments ''prompt'' PNone) \<and>
    io_bind (call_edit_image_qwen ed (dict_get arguments ''image_url'' PNone)
               (dict_get arguments ''prompt'' PNone))
            (format_response rt) calls = (Inl e, calls')
    \<longrightarrow> handle_call_tool rt ed ''edit_image_qwen'' arguments calls =
          (Inr (CallToolResult
             [TextContent ''text'' (''Internal error: '' @ exn_str e)] True), calls')) \<and>
   (py_truthy (dict_get arguments ''image_url'' PNone) \<and>
    io_bind (call_remove_background ed (dict_get arguments ''image_url'' PNone))
            (format_response rt) calls = (Inl e, calls')
    \<longrightarrow> handle_call_tool rt ed ''remove_background'' arguments calls =
          (Inr (CallToolResult
             [TextContent ''text'' (''Internal error: '' @ exn_str e)] True), calls')) \<and>
   (py_truthy (dict_get arguments ''image_url'' PNone) \<and>
    io_bind (call_upscale_image ed (dict_get arguments ''image_url'' PNone)
               (dict_get arguments ''scale'' (PInt 2)))
            (format_response rt) calls = (Inl e, calls')
    \<longrightarrow> handle_call_tool rt ed ''upscale_image'' arguments calls =
          (Inr (CallToolResult
             [TextContent ''text'' (''Internal error: '' @ exn_str e)] True), calls')) \<and>
   (\<exists>r calls'. wsgi_app rt ed meth path get_json calls = (Inr r, calls')) \<and>
   (dispatch_request rt ed meth path get_json = Some view \<and> view calls = (Inl e', calls'')
    \<longrightarrow> wsgi_app rt ed meth path get_json calls = (Inr InternalServerError, calls'')) \<and>
   (dispatch_request rt ed meth path get_json = Some view \<and> view calls = (Inr resp, calls'')
    \<longrightarrow> wsgi_app rt ed meth path get_json calls = (Inr (ViewResponse resp), calls'')) \<and>
   (py_get (py_or get_json (PDict [])) ''image_url'' PNone = Inl e'
    \<longrightarrow> wsgi_app rt ed ''POST'' ''/edit/flux'' get_json calls = (Inr InternalServerError, calls) \<and>
        wsgi_app rt ed ''POST'' ''/edit/qwen'' get_json calls = (Inr InternalServerError, calls) \<and>
        wsgi_app rt ed ''POST'' ''/remove-bg'' get_json calls = (Inr InternalServerError, calls) \<and>
        wsgi_app rt ed ''POST'' ''/upscale'' get_json calls = (Inr InternalServerError, calls))"
proof -
  have tool: "\<exists>r calls'. handle_call_tool rt ed name arguments calls = (Inr r, calls')"
    by (rule handle_call_tool_returns)
  have http: "\<exists>r calls'. wsgi_app rt ed meth path get_json calls = (Inr r, calls')"
    by (rule wsgi_app_returns)
  show ?thesis
    using tool http
      handle_call_tool_flux_calls [of arguments rt ed calls]
      handle_call_tool_qwen_calls [of arguments rt ed calls]
      handle_call_tool_rembg_calls [of arguments rt ed calls]
      handle_call_tool_upscale_calls [of arguments rt ed calls]
      wsgi_app_view_raises [of rt ed meth path get_json view calls e' calls'']
      wsgi_app_view_returns [of rt ed meth path get_json view calls resp calls'']
      wsgi_app_not_mapping [of get_json e' rt ed calls]
    by (simp add: io_try_reports)
qed

theorem front_ends_catch_exceptions_witness:
  "handle_call_tool sample_runtime raising_editor ''edit_image_flux''
       [(''image_url'', PStr ''http://x/img.png''), (''prompt'', PStr ''add a hat'')] [] =
     (Inr (CallToolResult [TextContent ''text'' ''Internal error: boom''] True), []) \<and>
   handle_call_tool sample_runtime raising_editor ''edit_image_qwen''
       [(''image_url'', PStr ''http://x/img.png''), (''prompt'', PStr ''add a hat'')] [] =
     (Inr (CallToolResult [TextContent ''text'' ''Internal error: boom''] True), []) \<and>
   handle_call_tool sample_runtime raising_editor ''remove_background''
       [(''image_url'', PStr ''http://x/img.png''), (''prompt'', PStr ''add a hat'')] [] =
     (Inr (CallToolResult [TextContent ''text'' ''Internal error: boom''] True), []) \<and>
   handle_call_tool sample_runtime raising_editor ''upscale_image''
       [(''image_url'', PStr ''http://x/img.png''), (''prompt'', PStr ''add a hat'')] [] =
     (Inr (CallToolResult [TextContent ''text'' ''Internal error: boom''] True), []) \<and>
   edit_flux sample_runtime raising_editor (PList [PInt 1]) [] =
     (Inl (PyExn ''AttributeError''
        (squote ''list'' @ '' object has no attribute '' @ squote ''get'')), []) \<and>
   wsgi_app sample_runtime raising_editor ''POST'' ''/edit/flux'' (PList [PInt 1]) [] =
     (Inr InternalServerError, [])"
  using front_ends_catch_exceptions [where rt = sample_runtime and ed = raising_editor
      and name = "''edit_image_flux''"
      and arguments = "[(''image_url'', PStr ''http://x/img.png''), (''prompt'', PStr ''add a hat'')]"
      and calls = "[]" and calls' = "[]" and calls'' = "[]"
      and e = "PyExn ''RuntimeError'' ''boom''"
      and e' = "PyExn ''AttributeError''
        (squote ''list'' @ '' object has no attribute '' @ squote ''get'')"
      and get_json = "PList [PInt 1]" and meth = "''POST''" and path = "''/edit/flux''"
      and view = "edit_flux sample_runtime raising_editor (PList [PInt 1])"
      and resp = "JsonResponse PNone 200"]
  by (simp add: raising_editor_def dict_get_def io_simps py_or_def dispatch_routes edit_flux_def)

text \<open>
  The \<open>/edit/flux\<close> view and missing fields. When the body is an object (or is absent,
  malformed or otherwise false, and so replaced by the empty object) and its
  \<open>strength\<close>, or the default 0.8, is accepted by \<open>float()\<close>, a body without
  \<open>image_url\<close> or without \<open>prompt\<close> is answered with status 400 and the body
  \<open>{"success": false, "error": "image_url and prompt are required"}\<close>, and no call is made.
\<close>

lemma edit_flux_missing_field_400:
  assumes "py_or get_json (PDict []) = PDict d"
    and "py_float rt (dict_get d ''strength'' (PFloat float_0_8)) = Inr f"
    and "map_of d ''image_url'' = None \<or> map_of d ''prompt'' = None"
  shows "edit_flux rt editor get_json calls =
     (Inr (JsonResponse (PDict [(''success'', PBool False),
                               (''error'', PStr ''image_url and prompt are required'')]) 400),
      calls)"
proof -
  from assms(3) have "\<not> py_truthy (dict_get d ''image_url'' PNone) \<or>
      \<not> py_truthy (dict_get d ''prompt'' PNone)"
    by (auto simp add: dict_get_absent)
  with assms(1,2) show ?thesis
    by (rule edit_flux_rejects)
qed

lemma edit_flux_without_prompt:
  "edit_flux rt editor (PDict [(''image_url'', PStr ''http://x/img.png'')]) calls =
     (Inr (JsonResponse (PDict [(''success'', PBool False),
                               (''error'', PStr ''image_url and prompt are required'')]) 400),
      calls)"
  by (rule edit_flux_missing_field_400 [where d = "[(''image_url'', PStr ''http://x/img.png'')]"
        and f = float_0_8])
     (simp_all add: py_or_def dict_get_def)

lemma edit_flux_without_body:
  "edit_flux rt editor PNone calls =
     (Inr (JsonResponse (PDict [(''success'', PBool False),
                               (''error'', PStr ''image_url and prompt are required'')]) 400),
      calls)"
  by (rule edit_flux_missing_field_400 [where d = "[]" and f = float_0_8])
     (simp_all add: py_or_def dict_get_def)

text \<open>
  C7. A POST to \<open>/edit/flux\<close> whose body lacks \<open>image_url\<close> or \<open>prompt\<close> should return
  status 400 with the body above. The view converts \<open>strength\<close> with \<open>float()\<close> before
  it checks the required fields, so on the body
  \<open>{"image_url": "http://x/img.png", "strength": null}\<close>, which has no \<open>prompt\<close>, the
  \<open>TypeError\<close> of \<open>float(None)\<close> leaves the view and no 400 response is returned.
\<close>

theorem edit_flux_null_strength_raises:
  "dispatch_request sample_runtime (image_editor sample_runtime sample_editor vendor_ok)
      ''POST'' ''/edit/flux''
      (PDict [(''image_url'', PStr ''http://x/img.png''), (''strength'', PNone)]) =
     Some (edit_flux sample_runtime (image_editor sample_runtime sample_editor vendor_ok)
             (PDict [(''image_url'', PStr ''http://x/img.png''), (''strength'', PNone)])) \<and>
   map_of [(''image_url'', PStr ''http://x/img.png''), (''strength'', PNone)] ''prompt'' = None \<and>
   edit_flux sample_runtime (image_editor sample_runtime sample_editor vendor_ok)
      (PDict [(''image_url'', PStr ''http://x/img.png''), (''strength'', PNone)]) [] =
     (Inl (PyExn ''TypeError''
        (''float() argument must be a string or a real number, not '' @ squote ''NoneType'')),
      [])"
  by (simp add: dispatch_routes edit_flux_def io_simps py_or_def dict_get_def)

theorem edit_flux_null_strength_not_400:
  "fst (edit_flux sample_runtime (image_editor sample_runtime sample_editor vendor_ok)
      (PDict [(''image_url'', PStr ''http://x/img.png''), (''strength'', PNone)]) []) \<noteq>
     Inr (JsonResponse (PDict [(''success'', PBool False),
                              (''error'', PStr ''image_url and prompt are required'')]) 400)"
  using edit_flux_null_strength_raises by simp

lemma edit_flux_falsy_as_absent:
  assumes "\<not> py_truthy v" and "map_of d k = None" and "k = ''image_url'' \<or> k = ''prompt''"
  shows "edit_flux rt ed (PDict ((k, v) # d)) calls = edit_flux rt ed (PDict d) calls \<and>
         snd (edit_flux rt ed (PDict ((k, v) # d)) calls) = calls \<and>
         (py_float rt (dict_get d ''strength'' (PFloat float_0_8)) = Inr f \<longrightarrow>
          edit_flux rt ed (PDict ((k, v) # d)) calls =
            (Inr (JsonResponse (PDict [(''success'', PBool False),
                    (''error'', PStr ''image_url and prompt are required'')]) 400), calls))"
proof -
  have data: "py_or (PDict ((k, v) # d)) (PDict []) = PDict ((k, v) # d)"
    "py_or (PDict d) (PDict []) = PDict d"
    by (simp_all add: py_or_dict)
  from assms(3) have st: "dict_get ((k, v) # d) ''strength'' (PFloat float_0_8) =
      dict_get d ''strength'' (PFloat float_0_8)"
    by (auto simp add: dict_get_other)
  from assms(1,3) have l: "\<not> py_truthy (dict_get ((k, v) # d) ''image_url'' PNone) \<or>
      \<not> py_truthy (dict_get ((k, v) # d) ''prompt'' PNone)"
    by (auto simp add: dict_get_head)
  from assms(2,3) have r: "\<not> py_truthy (dict_get d ''image_url'' PNone) \<or>
      \<not> py_truthy (dict_get d ''prompt'' PNone)"
    by (auto simp add: dict_get_absent)
  show ?thesis
  proof (cases "py_float rt (dict_get d ''strength'' (PFloat float_0_8))")
    case (Inl e)
    with st data show ?thesis
      by (simp add: edit_flux_bad_strength)
  next
    case (Inr f')
    with st have "py_float rt (dict_get ((k, v) # d) ''strength'' (PFloat float_0_8)) = Inr f'"
      by simp
    from edit_flux_rejects [OF data(1) this l] edit_flux_rejects [OF data(2) Inr r]
    show ?thesis by simp
  qed
qed

lemma upscale_falsy_as_absent:
  assumes "\<not> py_truthy v" and "map_of d ''image_url'' = None"
  shows "upscale rt ed (PDict ((''image_url'', v) # d)) calls = upscale rt ed (PDict d) calls \<and>
         snd (upscale rt ed (PDict ((''image_url'', v) # d)) calls) = calls \<and>
         (py_int rt (dict_get d ''scale'' (PInt 2)) = Inr n \<longrightarrow>
          upscale rt ed (PDict ((''image_url'', v) # d)) calls =
            (Inr (JsonResponse (PDict [(''success'', PBool False),
                    (''error'', PStr ''image_url is required'')]) 400), calls))"
proof -
  have data: "py_or (PDict ((''image_url'', v) # d)) (PDict []) = PDict ((''image_url'', v) # d)"
    "py_or (PDict d) (PDict []) = PDict d"
    by (simp_all add: py_or_dict)
  have st: "dict_get ((''image_url'', v) # d) ''scale'' (PInt 2) = dict_get d ''scale'' (PInt 2)"
    by (simp add: dict_get_other)
  from assms(1) have l: "\<not> py_truthy (dict_get ((''image_url'', v) # d) ''image_url'' PNone)"
    by (simp add: dict_get_head)
  from assms(2) have r: "\<not> py_truthy (dict_get d ''image_url'' PNone)"
    by (simp add: dict_get_absent)
  show ?thesis
  proof (cases "py_int rt (dict_get d ''scale'' (PInt 2))")
    case (Inl e)
    with st data show ?thesis
      by (simp add: upscale_bad_scale)
  next
    case (Inr n')
    with st have "py_int rt (dict_get ((''image_url'', v) # d) ''scale'' (PInt 2)) = Inr n'"
      by simp
    from upscale_rejects [OF data(1) this l] upscale_rejects [OF data(2) Inr r]
    show ?thesis by simp
  qed
qed

lemma edit_qwen_falsy_as_absent:
  assumes "\<not> py_truthy v" and "map_of d k = None" and "k = ''image_url'' \<or> k = ''prompt''"
  shows "edit_qwen ed (PDict ((k, v) # d)) calls = edit_qwen ed (PDict d) calls \<and>
         edit_qwen ed (PDict ((k, v) # d)) calls =
            (Inr (JsonResponse (PDict [(''success'', PBool False),
                    (''error'', PStr ''image_url and prompt are required'')]) 400), calls)"
proof -
  have data: "py_or (PDict ((k, v) # d)) (PDict []) = PDict ((k, v) # d)"
    "py_or (PDict d) (PDict []) = PDict d"
    by (simp_all add: py_or_dict)
  from assms(1,3) have l: "\<not> py_truthy (dict_get ((k, v) # d) ''image_url'' PNone) \<or>
      \<not> py_truthy (dict_get ((k, v) # d) ''prompt'' PNone)"
    by (auto simp add: dict_get_head)
  from assms(2,3) have r: "\<not> py_truthy (dict_get d ''image_url'' PNone) \<or>
      \<not> py_truthy (dict_get d ''prompt'' PNone)"
    by (auto simp add: dict_get_absent)
  from edit_qwen_rejects [OF data(1) l] edit_qwen_rejects [OF data(2) r]
  show ?thesis by simp
qed

lemma remove_bg_falsy_as_absent:
  assumes "\<not> py_truthy v" and "map_of d ''image_url'' = None"
  shows "remove_bg ed (PDict ((''image_url'', v) # d)) calls = remove_bg ed (PDict d) calls \<and>
         remove_bg ed (PDict ((''image_url'', v) # d)) calls =
            (Inr (JsonResponse (PDict [(''success'', PBool False),
                    (''error'', PStr ''image_url is required'')]) 400), calls)"
proof -
  have data: "py_or (PDict ((''image_url'', v) # d)) (PDict []) = PDict ((''image_url'', v) # d)"
    "py_or (PDict d) (PDict []) = PDict d"
    by (simp_all add: py_or_dict)
  from assms(1) have l: "\<not> py_truthy (dict_get ((''image_url'', v) # d) ''image_url'' PNone)"
    by (simp add: dict_get_head)
  from assms(2) have r: "\<not> py_truthy (dict_get d ''image_url'' PNone)"
    by (simp add: dict_get_absent)
  from remove_bg_rejects [OF data(1) l] remove_bg_rejects [OF data(2) r]
  show ?thesis by simp
qed

lemma handle_call_tool_falsy_as_absent:
  assumes "\<not> py_truthy v" and "map_of d k = None"
    and "t \<in> set TOOLS" and "k \<in> set (required_args t)"
  shows "handle_call_tool rt ed (tool_name t) ((k, v) # d) calls =
           handle_call_tool rt ed (tool_name t) d calls \<and>
         handle_call_tool rt ed (tool_name t) ((k, v) # d) calls =
           (Inr (CallToolResult
              [TextContent ''text''
                 (if ''prompt'' \<in> set (required_args t)
                  then ''Error: image_url and prompt are required''
                  else ''Error: image_url is required'')] True), calls)"
proof -
  from assms(1) have l: "\<not> py_truthy (dict_get ((k, v) # d) k PNone)"
    by (simp add: dict_get_head)
  from assms(2) have r: "\<not> py_truthy (dict_get d k PNone)"
    by (simp add: dict_get_absent)
  from handle_call_tool_rejects [OF assms(3,4) l] handle_call_tool_rejects [OF assms(3,4) r]
  show ?thesis by simp
qed

text \<open>
  A required argument supplied with a false value (the empty string, \<open>null\<close>, 0, an
  empty list or object) has the outcome of an absent one. For every tool of \<open>TOOLS\<close>
  and every argument it declares required, the handler's outcome with the false value
  equals its outcome without the key, and it is the error result. For the four POST
  views the two outcomes are equal as well and the list of outbound calls is unchanged;
  the outcome is the 400 response of the view in \<open>/edit/qwen\<close> and \<open>/remove-bg\<close>, and in
  \<open>/edit/flux\<close> and \<open>/upscale\<close> whenever the conversion of the optional \<open>strength\<close> or
  \<open>scale\<close>, which precedes the check, returns.
\<close>

lemma falsy_as_absent_outcomes:
  assumes "\<not> py_truthy v" and "map_of d k = None"
  shows
  "(t \<in> set TOOLS \<and> k \<in> set (required_args t) \<longrightarrow>
      handle_call_tool rt ed (tool_name t) ((k, v) # d) calls =
        handle_call_tool rt ed (tool_name t) d calls \<and>
      handle_call_tool rt ed (tool_name t) ((k, v) # d) calls =
        (Inr (CallToolResult
           [TextContent ''text''
              (if ''prompt'' \<in> set (required_args t)
               then ''Error: image_url and prompt are required''
               else ''Error: image_url is required'')] True), calls)) \<and>
   (k = ''image_url'' \<or> k = ''prompt'' \<longrightarrow>
      edit_flux rt ed (PDict ((k, v) # d)) calls = edit_flux rt ed (PDict d) calls \<and>
      snd (edit_flux rt ed (PDict ((k, v) # d)) calls) = calls \<and>
      (py_float rt (dict_get d ''strength'' (PFloat float_0_8)) = Inr f \<longrightarrow>
       edit_flux rt ed (PDict ((k, v) # d)) calls =
         (Inr (JsonResponse (PDict [(''success'', PBool False),
                 (''error'', PStr ''image_url and prompt are required'')]) 400), calls)) \<and>
      edit_qwen ed (PDict ((k, v) # d)) calls = edit_qwen ed (PDict d) calls \<and>
      edit_qwen ed (PDict ((k, v) # d)) calls =
         (Inr (JsonResponse (PDict [(''success'', PBool False),
                 (''error'', PStr ''image_url and prompt are required'')]) 400), calls)) \<and>
   (k = ''image_url'' \<longrightarrow>
      remove_bg ed (PDict ((k, v) # d)) calls = remove_bg ed (PDict d) calls \<and>
      remove_bg ed (PDict ((k, v) # d)) calls =
         (Inr (JsonResponse (PDict [(''success'', PBool False),
                 (''error'', PStr ''image_url is required'')]) 400), calls) \<and>
      upscale rt ed (PDict ((k, v) # d)) calls = upscale rt ed (PDict d) calls \<and>
      snd (upscale rt ed (PDict ((k, v) # d)) calls) = calls \<and>
      (py_int rt (dict_get d ''scale'' (PInt 2)) = Inr n \<longrightarrow>
       upscale rt ed (PDict ((k, v) # d)) calls =
         (Inr (JsonResponse (PDict [(''success'', PBool False),
                 (''error'', PStr ''image_url is required'')]) 400), calls)))"
  using assms
    handle_call_tool_falsy_as_absent [of v d k t rt ed calls]
    edit_flux_falsy_as_absent [of v d k rt ed calls f]
    edit_qwen_falsy_as_absent [of v d k ed calls]
    remove_bg_falsy_as_absent [of v d ed calls]
    upscale_falsy_as_absent [of v d rt ed calls n]
  by blast

lemma falsy_as_absent_example:
  "\<not> py_truthy (PStr '''') \<and>
   handle_call_tool sample_runtime (image_editor sample_runtime sample_editor vendor_ok)
      ''edit_image_flux'' [(''image_url'', PStr ''''), (''prompt'', PStr ''add a hat'')] [] =
     (Inr (CallToolResult
        [TextContent ''text'' ''Error: image_url and prompt are required''] True), []) \<and>
   edit_flux sample_runtime (image_editor sample_runtime sample_editor vendor_ok)
      (PDict [(''image_url'', PStr ''''), (''prompt'', PStr ''add a hat'')]) [] =
     (Inr (JsonResponse (PDict [(''success'', PBool False),
             (''error'', PStr ''image_url and prompt are required'')]) 400), []) \<and>
   edit_qwen (image_editor sample_runtime sample_editor vendor_ok)
      (PDict [(''image_url'', PStr ''''), (''prompt'', PStr ''add a hat'')]) [] =
     (Inr (JsonResponse (PDict [(''success'', PBool False),
             (''error'', PStr ''image_url and prompt are required'')]) 400), []) \<and>
   remove_bg (image_editor sample_runtime sample_editor vendor_ok)
      (PDict [(''image_url'', PStr ''''), (''prompt'', PStr ''add a hat'')]) [] =
     (Inr (JsonResponse (PDict [(''success'', PBool False),
             (''error'', PStr ''image_url is required'')]) 400), []) \<and>
   upscale sample_runtime (image_editor sample_runtime sample_editor vendor_ok)
      (PDict [(''image_url'', PStr ''''), (''prompt'', PStr ''add a hat'')]) [] =
     (Inr (JsonResponse (PDict [(''success'', PBool False),
             (''error'', PStr ''image_url is required'')]) 400), [])"
  using falsy_as_absent_outcomes [where v = "PStr ''''" and k = "''image_url''"
      and d = "[(''prompt'', PStr ''add a hat'')]" and t = "TOOLS ! 0"
      and rt = sample_runtime and ed = "image_editor sample_runtime sample_editor vendor_ok"
      and calls = "[]" and f = float_0_8 and n = 2]
  by (simp add: TOOLS_def required_args_def dict_get_def cong: conj_cong)

text \<open>
  C10. A required argument that is supplied but false should be rejected exactly as an
  absent one: the same error result from the tool handler, the same 400 response from
  the HTTP route, and no vendor call. The tool handler and the views \<open>/edit/qwen\<close> and
  \<open>/remove-bg\<close> do so on every input. The views \<open>/edit/flux\<close> and \<open>/upscale\<close> convert
  the optional field before they check the required one: on the body
  \<open>{"image_url": "", "prompt": "add a hat", "strength": null}\<close> the \<open>TypeError\<close> of
  \<open>float(None)\<close> leaves \<open>edit_flux\<close>, and on \<open>{"image_url": "", "scale": null}\<close> that of
  \<open>int(None)\<close> leaves \<open>upscale\<close>; neither returns the 400 response.
\<close>

theorem edit_flux_empty_url_null_strength_raises:
  "\<not> py_truthy (PStr '''') \<and>
   dispatch_request sample_runtime (image_editor sample_runtime sample_editor vendor_ok)
      ''POST'' ''/edit/flux''
      (PDict [(''image_url'', PStr ''''), (''prompt'', PStr ''add a hat''),
              (''strength'', PNone)]) =
     Some (edit_flux sample_runtime (image_editor sample_runtime sample_editor vendor_ok)
             (PDict [(''image_url'', PStr ''''), (''prompt'', PStr ''add a hat''),
                     (''strength'', PNone)])) \<and>
   edit_flux sample_runtime (image_editor sample_runtime sample_editor vendor_ok)
      (PDict [(''image_url'', PStr ''''), (''prompt'', PStr ''add a hat''),
              (''strength'', PNone)]) [] =
     (Inl (PyExn ''TypeError''
        (''float() argument must be a string or a real number, not '' @ squote ''NoneType'')),
      []) \<and>
   upscale sample_runtime (image_editor sample_runtime sample_editor vendor_ok)
      (PDict [(''image_url'', PStr ''''), (''scale'', PNone)]) [] =
     (Inl (PyExn ''TypeError''
        (''int() argument must be a string, a bytes-like object or a real number, not ''
           @ squote ''NoneType'')),
      [])"
  by (simp add: dispatch_routes edit_flux_def upscale_def io_simps py_or_def dict_get_def)

theorem edit_flux_empty_url_null_strength_not_400:
  "fst (edit_flux sample_runtime (image_editor sample_runtime sample_editor vendor_ok)
      (PDict [(''image_url'', PStr ''''), (''prompt'', PStr ''add a hat''),
              (''strength'', PNone)]) []) \<noteq>
     Inr (JsonResponse (PDict [(''success'', PBool False),
                              (''error'', PStr ''image_url and prompt are required'')]) 400) \<and>
   fst (upscale sample_runtime (image_editor sample_runtime sample_editor vendor_ok)
      (PDict [(''image_url'', PStr ''''), (''scale'', PNone)]) []) \<noteq>
     Inr (JsonResponse (PDict [(''success'', PBool False),
                              (''error'', PStr ''image_url is required'')]) 400)"
  using edit_flux_empty_url_null_strength_raises by simp

end
